theory Spec2Isabelle
  imports Main "HOL-Library.Word" "HOL-Library.Signed_Division"
begin

unbundle bit_operations_syntax

section \<open>Machine instructions, operands and fixups\<close>

text \<open>
  The operand of a machine instruction is a tagged union. The emitter and the printer
  ask three questions of it (\<open>isReg\<close>, \<open>isImm\<close>, \<open>isExpr\<close>); the printer's assertion
  \<^verbatim>\<open>assert(MO.isExpr() && "Unknown operand kind in printOperand")\<close> shows that further kinds
  exist, so the model keeps one constructor for them. Register numbers and opcodes are
  unsigned identifiers, immediates are \<open>int64_t\<close>, expressions are opaque.
\<close>

datatype MCExpr = MCExpr nat

datatype MCOperand =
    MOReg nat
  | MOImm "64 word"
  | MOExpr MCExpr
  | MOOther

record MCInst =
  Opcode :: nat
  Operands :: "MCOperand list"

datatype PPCFixupKind =
    fixup_ppc_br24
  | fixup_ppc_br24_notoc
  | fixup_ppc_brcond14
  | fixup_ppc_br24abs
  | fixup_ppc_brcond14abs
  | fixup_ppc_half16
  | fixup_ppc_half16ds
  | fixup_ppc_nofixup

record MCFixup =
  Offset :: nat
  Value :: MCExpr
  Kind :: PPCFixupKind

text \<open>
  Every way the C++ leaves a function other than by returning: a failed \<open>assert\<close>,
  \<open>llvm_unreachable\<close>, and \<open>report_fatal_error\<close> with its message.
\<close>

datatype error =
    AssertionFailed
  | Unreachable
  | FatalError string

text \<open>
  The tables generated from the target description are not part of the emitter's source
  file. They are parameters of the model: the opcode and register enumerators the emitter
  names, the register encoding table, \<open>PPCInstrInfo::getRegNumForOperand\<close>, the size
  of an instruction's encoding (\<open>MCInstrDesc::getSize\<close>), the generated
  \<open>getBinaryCodeForInstr\<close> and \<open>verifyInstructionPredicates\<close>, and the
  emitter's \<open>IsLittleEndian\<close> flag.
\<close>

record PPCTarget =
  IsLittleEndian :: bool
  BL8_NOTOC :: nat
  MTOCRF :: nat
  MTOCRF8 :: nat
  MFOCRF :: nat
  MFOCRF8 :: nat
  CR0 :: nat
  CR7 :: nat
  getEncodingValue :: "nat \<Rightarrow> 16 word"
  getRegNumForOperand :: "nat \<Rightarrow> nat \<Rightarrow> nat \<Rightarrow> nat"
  getSize :: "nat \<Rightarrow> nat"
  getBinaryCodeForInstr :: "MCInst \<Rightarrow> MCFixup list \<Rightarrow> error + (64 word \<times> MCFixup list)"
  verifyInstructionPredicates :: "MCInst \<Rightarrow> error + unit"

definition isReg :: "MCOperand \<Rightarrow> bool" where
  "isReg MO = (case MO of MOReg _ \<Rightarrow> True | _ \<Rightarrow> False)"

definition isImm :: "MCOperand \<Rightarrow> bool" where
  "isImm MO = (case MO of MOImm _ \<Rightarrow> True | _ \<Rightarrow> False)"

definition isExpr :: "MCOperand \<Rightarrow> bool" where
  "isExpr MO = (case MO of MOExpr _ \<Rightarrow> True | _ \<Rightarrow> False)"

text \<open>The accessors assert the kind of the operand they are applied to.\<close>

definition getReg :: "MCOperand \<Rightarrow> error + nat" where
  "getReg MO = (case MO of MOReg r \<Rightarrow> Inr r | _ \<Rightarrow> Inl AssertionFailed)"

definition getImm :: "MCOperand \<Rightarrow> error + 64 word" where
  "getImm MO = (case MO of MOImm v \<Rightarrow> Inr v | _ \<Rightarrow> Inl AssertionFailed)"

definition getExpr :: "MCOperand \<Rightarrow> error + MCExpr" where
  "getExpr MO = (case MO of MOExpr e \<Rightarrow> Inr e | _ \<Rightarrow> Inl AssertionFailed)"

text \<open>\<open>MI.getOperand(i)\<close> indexes a vector, which asserts that the index is in range.\<close>

definition getNumOperands :: "MCInst \<Rightarrow> nat" where
  "getNumOperands MI = length (Operands MI)"

definition getOperand :: "MCInst \<Rightarrow> nat \<Rightarrow> error + MCOperand" where
  "getOperand MI i = (if i < length (Operands MI) then Inr (Operands MI ! i) else Inl AssertionFailed)"

definition MCFixup_create :: "nat \<Rightarrow> MCExpr \<Rightarrow> PPCFixupKind \<Rightarrow> MCFixup" where
  "MCFixup_create off e k = \<lparr>Offset = off, Value = e, Kind = k\<rparr>"

section \<open>The PowerPC code emitter\<close>

text \<open>
  \<open>getOpIdxForMO\<close> finds an operand in its instruction by address. An operand reference
  \<open>const MCOperand &\<close> into \<open>MI\<close> is modelled by the position it refers to, so the
  comparison \<open>&Op == &MO\<close> is a comparison of positions. The loop runs \<open>i\<close> upwards;
  \<open>n - i\<close> counts the iterations left.
\<close>

fun getOpIdxForMO_loop :: "nat \<Rightarrow> nat \<Rightarrow> nat \<Rightarrow> error + nat" where
  "getOpIdxForMO_loop ref i 0 = Inl Unreachable"
| "getOpIdxForMO_loop ref i (Suc k) = (if i = ref then Inr i else getOpIdxForMO_loop ref (Suc i) k)"

definition getOpIdxForMO :: "MCInst \<Rightarrow> nat \<Rightarrow> error + nat" where
  "getOpIdxForMO MI ref = getOpIdxForMO_loop ref 0 (getNumOperands MI)"

text \<open>
  \<open>getMachineOpValue\<close> takes the operand by reference: its position \<open>ref\<close> in \<open>MI\<close> and
  its contents \<open>MO\<close>. It never touches the fixup list, which is returned as it came.
\<close>

definition getMachineOpValue ::
  "PPCTarget \<Rightarrow> MCInst \<Rightarrow> nat \<Rightarrow> MCOperand \<Rightarrow> MCFixup list \<Rightarrow> error + (64 word \<times> MCFixup list)" where
  "getMachineOpValue T MI ref MO Fixups =
     (case MO of
        MOReg r \<Rightarrow>
          if \<not> ((Opcode MI \<noteq> MTOCRF T \<and> Opcode MI \<noteq> MTOCRF8 T \<and>
                  Opcode MI \<noteq> MFOCRF T \<and> Opcode MI \<noteq> MFOCRF8 T) \<or>
                 r < CR0 T \<or> r > CR7 T)
          then Inl AssertionFailed
          else (case getOpIdxForMO MI ref of
                  Inl e \<Rightarrow> Inl e
                | Inr OpNo \<Rightarrow>
                    Inr (ucast (getEncodingValue T (getRegNumForOperand T (Opcode MI) r OpNo)), Fixups))
      | MOImm v \<Rightarrow> Inr (v, Fixups)
      | _ \<Rightarrow> Inl AssertionFailed)"

text \<open>
  The branch and immediate encoders return \<open>unsigned\<close>: the 64-bit value of
  \<open>getMachineOpValue\<close> is converted to 32 bits by the return statement. The operand
  number \<open>OpNo\<close> is \<open>unsigned\<close> too, so \<open>OpNo + 1\<close> wraps.
\<close>

definition returnUnsigned :: "error + (64 word \<times> MCFixup list) \<Rightarrow> error + (32 word \<times> MCFixup list)" where
  "returnUnsigned r = (case r of Inl e \<Rightarrow> Inl e | Inr (v, F) \<Rightarrow> Inr (ucast v, F))"

definition getDirectBrEncoding ::
  "PPCTarget \<Rightarrow> MCInst \<Rightarrow> 32 word \<Rightarrow> MCFixup list \<Rightarrow> error + (32 word \<times> MCFixup list)" where
  "getDirectBrEncoding T MI OpNo Fixups =
     (case getOperand MI (unat OpNo) of
        Inl e \<Rightarrow> Inl e
      | Inr MO \<Rightarrow>
          if isReg MO \<or> isImm MO then returnUnsigned (getMachineOpValue T MI (unat OpNo) MO Fixups)
          else (case getExpr MO of
                  Inl e \<Rightarrow> Inl e
                | Inr ex \<Rightarrow>
                    Inr (0, Fixups @ [MCFixup_create 0 ex
                                        (if Opcode MI = BL8_NOTOC T then fixup_ppc_br24_notoc
                                         else fixup_ppc_br24)])))"

definition getCondBrEncoding ::
  "PPCTarget \<Rightarrow> MCInst \<Rightarrow> 32 word \<Rightarrow> MCFixup list \<Rightarrow> error + (32 word \<times> MCFixup list)" where
  "getCondBrEncoding T MI OpNo Fixups =
     (case getOperand MI (unat OpNo) of
        Inl e \<Rightarrow> Inl e
      | Inr MO \<Rightarrow>
          if isReg MO \<or> isImm MO then returnUnsigned (getMachineOpValue T MI (unat OpNo) MO Fixups)
          else (case getExpr MO of
                  Inl e \<Rightarrow> Inl e
                | Inr ex \<Rightarrow> Inr (0, Fixups @ [MCFixup_create 0 ex fixup_ppc_brcond14])))"

definition getAbsDirectBrEncoding ::
  "PPCTarget \<Rightarrow> MCInst \<Rightarrow> 32 word \<Rightarrow> MCFixup list \<Rightarrow> error + (32 word \<times> MCFixup list)" where
  "getAbsDirectBrEncoding T MI OpNo Fixups =
     (case getOperand MI (unat OpNo) of
        Inl e \<Rightarrow> Inl e
      | Inr MO \<Rightarrow>
          if isReg MO \<or> isImm MO then returnUnsigned (getMachineOpValue T MI (unat OpNo) MO Fixups)
          else (case getExpr MO of
                  Inl e \<Rightarrow> Inl e
                | Inr ex \<Rightarrow> Inr (0, Fixups @ [MCFixup_create 0 ex fixup_ppc_br24abs])))"

definition getAbsCondBrEncoding ::
  "PPCTarget \<Rightarrow> MCInst \<Rightarrow> 32 word \<Rightarrow> MCFixup list \<Rightarrow> error + (32 word \<times> MCFixup list)" where
  "getAbsCondBrEncoding T MI OpNo Fixups =
     (case getOperand MI (unat OpNo) of
        Inl e \<Rightarrow> Inl e
      | Inr MO \<Rightarrow>
          if isReg MO \<or> isImm MO then returnUnsigned (getMachineOpValue T MI (unat OpNo) MO Fixups)
          else (case getExpr MO of
                  Inl e \<Rightarrow> Inl e
                | Inr ex \<Rightarrow> Inr (0, Fixups @ [MCFixup_create 0 ex fixup_ppc_brcond14abs])))"

definition getImm16Encoding ::
  "PPCTarget \<Rightarrow> MCInst \<Rightarrow> 32 word \<Rightarrow> MCFixup list \<Rightarrow> error + (32 word \<times> MCFixup list)" where
  "getImm16Encoding T MI OpNo Fixups =
     (case getOperand MI (unat OpNo) of
        Inl e \<Rightarrow> Inl e
      | Inr MO \<Rightarrow>
          if isReg MO \<or> isImm MO then returnUnsigned (getMachineOpValue T MI (unat OpNo) MO Fixups)
          else (case getExpr MO of
                  Inl e \<Rightarrow> Inl e
                | Inr ex \<Rightarrow>
                    Inr (0, Fixups @ [MCFixup_create (if IsLittleEndian T then 0 else 2) ex
                                        fixup_ppc_half16])))"

definition getMemRIX16Encoding ::
  "PPCTarget \<Rightarrow> MCInst \<Rightarrow> 32 word \<Rightarrow> MCFixup list \<Rightarrow> error + (32 word \<times> MCFixup list)" where
  "getMemRIX16Encoding T MI OpNo Fixups =
     (case getOperand MI (unat (OpNo + 1)) of
        Inl e \<Rightarrow> Inl e
      | Inr MO1 \<Rightarrow>
          if \<not> isReg MO1 then Inl AssertionFailed
          else (case getMachineOpValue T MI (unat (OpNo + 1)) MO1 Fixups of
                  Inl e \<Rightarrow> Inl e
                | Inr (r, Fixups1) \<Rightarrow>
                    let RegBits = (ucast (push_bit 12 r) :: 32 word) in
                    (case getOperand MI (unat OpNo) of
                       Inl e \<Rightarrow> Inl e
                     | Inr MO \<Rightarrow>
                         if isImm MO then
                           (case getImm MO of
                              Inl e \<Rightarrow> Inl e
                            | Inr imm \<Rightarrow>
                                if \<not> (sint imm smod 16 = 0) then Inl AssertionFailed
                                else (case getMachineOpValue T MI (unat OpNo) MO Fixups1 of
                                        Inl e \<Rightarrow> Inl e
                                      | Inr (v, Fixups2) \<Rightarrow>
                                          Inr (ucast ((drop_bit 4 v AND 0xFFF) OR ucast RegBits), Fixups2)))
                         else (case getExpr MO of
                                 Inl e \<Rightarrow> Inl e
                               | Inr ex \<Rightarrow>
                                   Inr (RegBits,
                                        Fixups1 @ [MCFixup_create (if IsLittleEndian T then 0 else 2) ex
                                                     fixup_ppc_half16ds])))))"

definition getMemRI34PCRelEncoding ::
  "PPCTarget \<Rightarrow> MCInst \<Rightarrow> 32 word \<Rightarrow> MCFixup list \<Rightarrow> error + (64 word \<times> MCFixup list)" where
  "getMemRI34PCRelEncoding T MI OpNo Fixups =
     (case getOperand MI (unat (OpNo + 1)) of
        Inl e \<Rightarrow> Inl e
      | Inr MO1 \<Rightarrow>
          if \<not> isImm MO1 then Inl AssertionFailed
          else (case getMachineOpValue T MI (unat (OpNo + 1)) MO1 Fixups of
                  Inl e \<Rightarrow> Inl e
                | Inr (r, Fixups1) \<Rightarrow>
                    let RegBits = (push_bit 34 r :: 64 word) in
                    if RegBits \<noteq> 0 then Inl (FatalError ''Operand must be 0'')
                    else (case getOperand MI (unat OpNo) of
                            Inl e \<Rightarrow> Inl e
                          | Inr MO \<Rightarrow>
                              (case getMachineOpValue T MI (unat OpNo) MO Fixups1 of
                                 Inl e \<Rightarrow> Inl e
                               | Inr (v, Fixups2) \<Rightarrow>
                                   Inr ((v AND 0x3FFFFFFFF) OR RegBits, Fixups2)))))"

text \<open>
  The output stream is the list of bytes written so far. \<open>support::endian::write<uint32_t>\<close>
  converts its value to 32 bits and appends its four bytes, least significant first for
  \<open>little\<close> and most significant first for \<open>big\<close>.
\<close>

datatype endianness = big | little

definition endian_write32 :: "8 word list \<Rightarrow> 64 word \<Rightarrow> endianness \<Rightarrow> 8 word list" where
  "endian_write32 OS V E =
     (let W = (ucast V :: 32 word);
          b0 = (ucast W :: 8 word);
          b1 = (ucast (drop_bit 8 W) :: 8 word);
          b2 = (ucast (drop_bit 16 W) :: 8 word);
          b3 = (ucast (drop_bit 24 W) :: 8 word)
      in OS @ (case E of little \<Rightarrow> [b0, b1, b2, b3] | big \<Rightarrow> [b3, b2, b1, b0]))"

definition getInstSizeInBytes :: "PPCTarget \<Rightarrow> MCInst \<Rightarrow> nat" where
  "getInstSizeInBytes T MI = getSize T (Opcode MI)"

text \<open>
  \<open>encodeInstruction\<close> works on the output stream, the fixup list and the statistic
  \<open>MCNumEmitted\<close>; all three are passed in and returned.
\<close>

definition encodeInstruction ::
  "PPCTarget \<Rightarrow> MCInst \<Rightarrow> 8 word list \<Rightarrow> MCFixup list \<Rightarrow> nat \<Rightarrow>
     error + (8 word list \<times> MCFixup list \<times> nat)" where
  "encodeInstruction T MI OS Fixups MCNumEmitted =
     (case verifyInstructionPredicates T MI of
        Inl e \<Rightarrow> Inl e
      | Inr _ \<Rightarrow>
          (case getBinaryCodeForInstr T MI Fixups of
             Inl e \<Rightarrow> Inl e
           | Inr (Bits, Fixups1) \<Rightarrow>
               let Size = getInstSizeInBytes T MI;
                   E = (if IsLittleEndian T then little else big)
               in if Size = 0 then Inr (OS, Fixups1, MCNumEmitted + 1)
                  else if Size = 4 then Inr (endian_write32 OS Bits E, Fixups1, MCNumEmitted + 1)
                  else if Size = 8 then
                    Inr (endian_write32 (endian_write32 OS (drop_bit 32 Bits) E) Bits E,
                         Fixups1, MCNumEmitted + 1)
                  else Inl Unreachable))"

text \<open>
  Reading four bytes back as a 32-bit value in a given byte order; the specification of
  what a word "in the target byte order" is, used to state what \<open>encodeInstruction\<close> wrote.
\<close>

definition endian_read32 :: "8 word list \<Rightarrow> endianness \<Rightarrow> 32 word" where
  "endian_read32 bs E =
     (case (case E of little \<Rightarrow> bs | big \<Rightarrow> rev bs) of
        [b0, b1, b2, b3] \<Rightarrow>
          ucast b0 OR push_bit 8 (ucast b1) OR push_bit 16 (ucast b2) OR push_bit 24 (ucast b3)
      | _ \<Rightarrow> 0)"

section \<open>The VE instruction printer\<close>

text \<open>
  The printer's stream is the text written so far. The register names come from a
  generated table and the printing of an expression from \<open>MCExpr::print\<close>; both are
  parameters.
\<close>

record VETarget =
  getRegisterName :: "nat \<Rightarrow> string"
  printExpr :: "MCExpr \<Rightarrow> string"

text \<open>\<open>StringRef::lower\<close> maps \<open>toLower\<close> over the characters: \<open>A\<close> to \<open>Z\<close> move to \<open>a\<close> to \<open>z\<close>.\<close>

definition toLower :: "char \<Rightarrow> char" where
  "toLower x =
     (if (of_char (CHR ''A'') :: nat) \<le> of_char x \<and> (of_char x :: nat) \<le> of_char (CHR ''Z'')
      then char_of ((of_char x :: nat) - of_char (CHR ''A'') + of_char (CHR ''a''))
      else x)"

definition lower :: "string \<Rightarrow> string" where
  "lower s = map toLower s"

text \<open>
  Writing an integer to the stream: decimal digits, most significant first, no leading
  zeros, a minus sign before a negative number.
\<close>

definition digit_char :: "nat \<Rightarrow> char" where
  "digit_char d = char_of (of_char (CHR ''0'') + d)"

fun write_unsigned :: "nat \<Rightarrow> string" where
  "write_unsigned n =
     (if n < 10 then [digit_char n] else write_unsigned (n div 10) @ [digit_char (n mod 10)])"

declare write_unsigned.simps [simp del]

definition write_integer :: "int \<Rightarrow> string" where
  "write_integer N = (if 0 \<le> N then write_unsigned (nat N) else CHR ''-'' # write_unsigned (nat (- N)))"

definition printRegName :: "VETarget \<Rightarrow> string \<Rightarrow> nat \<Rightarrow> string" where
  "printRegName V OS RegNo = OS @ [CHR ''%''] @ lower (getRegisterName V RegNo)"

text \<open>
  \<open>printOperand\<close> takes the operand number as an \<open>int\<close>; \<open>getOperand\<close> takes it
  as \<open>unsigned\<close>, so a negative number wraps. The switch on the opcode has the default
  case only.
\<close>

definition printOperand :: "VETarget \<Rightarrow> MCInst \<Rightarrow> int \<Rightarrow> string \<Rightarrow> error + string" where
  "printOperand V MI OpNum OS =
     (case getOperand MI (nat (OpNum mod 2 ^ 32)) of
        Inl e \<Rightarrow> Inl e
      | Inr MO \<Rightarrow>
          if isReg MO then
            (case getReg MO of Inl e \<Rightarrow> Inl e | Inr r \<Rightarrow> Inr (printRegName V OS r))
          else if isImm MO then
            (case getImm MO of
               Inl e \<Rightarrow> Inl e
             | Inr imm \<Rightarrow>
                 let TruncatedImm = (ucast imm :: 32 word) in Inr (OS @ write_integer (sint TruncatedImm)))
          else if \<not> isExpr MO then Inl AssertionFailed
          else (case getExpr MO of Inl e \<Rightarrow> Inl e | Inr ex \<Rightarrow> Inr (OS @ printExpr V ex)))"

text \<open>Reading a decimal numeral back, to say which number a printed text denotes.\<close>

definition digit_value :: "char \<Rightarrow> nat" where
  "digit_value c = of_char c - of_char (CHR ''0'')"

definition read_unsigned :: "string \<Rightarrow> nat" where
  "read_unsigned s = foldl (\<lambda>a c. 10 * a + digit_value c) 0 s"

definition read_integer :: "string \<Rightarrow> int" where
  "read_integer s =
     (case s of
        [] \<Rightarrow> 0
      | c # cs \<Rightarrow> if c = CHR ''-'' then - int (read_unsigned cs) else int (read_unsigned s))"

definition isUpper :: "char \<Rightarrow> bool" where
  "isUpper c = ((of_char (CHR ''A'') :: nat) \<le> of_char c \<and> (of_char c :: nat) \<le> of_char (CHR ''Z''))"

section \<open>The IR of the loop-to-CFG lowering\<close>

text \<open>
  The lowering patterns work on blocks, operations and values through pointers, and on
  a rewriter that holds an insertion point. The model keeps a store: every block has an
  identifier, a region is the ordered list of the identifiers of its blocks, and an
  operation names its successor blocks and its regions by identifier. A value carries
  its type and says where it is defined: result \<open>i\<close> of an operation or argument \<open>i\<close>
  of a block; \<open>NullValue\<close> is the null \<open>Value\<close> the patterns test for.
\<close>

datatype Type = IndexType | IntegerType nat | OtherType nat

datatype Value = NullValue | OpResult nat nat Type | BlockArgument nat nat Type

datatype CmpIPredicate = eq | ne | slt | sle | sgt | sge | ult | ule | ugt | uge

datatype OpName =
    ForOp | IfOp | YieldOp | AddIOp | CmpIOp CmpIPredicate | BranchOp | CondBranchOp | OtherOp nat

record Operation =
  opId :: nat
  opName :: OpName
  opLoc :: nat
  opOperands :: "Value list"
  opResultTypes :: "Type list"
  opSuccessors :: "(nat \<times> Value list) list"
  opRegions :: "nat list"

record Block =
  blockArguments :: "Type list"
  blockOperations :: "Operation list"
  blockParent :: nat

text \<open>
  A position in a block is the operation it stands before, or the end of the block.
  The rewriter state is the store together with the insertion point and the supply of
  fresh identifiers.
\<close>

datatype Iterator = Before nat | AtEnd

record IR =
  blocks :: "nat \<Rightarrow> Block option"
  regions :: "nat \<Rightarrow> nat list"
  insertionBlock :: nat
  insertionPoint :: Iterator
  nextBlock :: nat
  nextOp :: nat

datatype LogicalResult = success | failure

type_synonym 'a Rewrite = "IR \<Rightarrow> error + ('a \<times> IR)"

definition returnM :: "'a \<Rightarrow> 'a Rewrite" where
  "returnM x st = Inr (x, st)"

definition bindM :: "'a Rewrite \<Rightarrow> ('a \<Rightarrow> 'b Rewrite) \<Rightarrow> 'b Rewrite" where
  "bindM m f st = (case m st of Inl e \<Rightarrow> Inl e | Inr (x, st') \<Rightarrow> f x st')"

definition liftE :: "error + 'a \<Rightarrow> 'a Rewrite" where
  "liftE r st = (case r of Inl e \<Rightarrow> Inl e | Inr x \<Rightarrow> Inr (x, st))"

subsection \<open>Accessors of operations and blocks\<close>

definition getResult :: "Operation \<Rightarrow> nat \<Rightarrow> Value" where
  "getResult operation i = OpResult (opId operation) i (opResultTypes operation ! i)"

definition getNumResults :: "Operation \<Rightarrow> nat" where
  "getNumResults operation = length (opResultTypes operation)"

definition getOpOperand :: "Operation \<Rightarrow> nat \<Rightarrow> error + Value" where
  "getOpOperand operation i = (if i < length (opOperands operation) then Inr (opOperands operation ! i) else Inl AssertionFailed)"

definition getOpRegion :: "Operation \<Rightarrow> nat \<Rightarrow> error + nat" where
  "getOpRegion operation i = (if i < length (opRegions operation) then Inr (opRegions operation ! i) else Inl AssertionFailed)"

text \<open>
  The accessors of \<open>loop.for\<close> and \<open>loop.if\<close>: a \<open>loop.for\<close> has the operands lower
  bound, upper bound, step and then the initial loop-carried values, and one region; a
  \<open>loop.if\<close> has the condition as its operand and the regions "then" and "else".
\<close>

definition ForOp_lowerBound :: "Operation \<Rightarrow> error + Value" where
  "ForOp_lowerBound forOp = getOpOperand forOp 0"

definition ForOp_upperBound :: "Operation \<Rightarrow> error + Value" where
  "ForOp_upperBound forOp = getOpOperand forOp 1"

definition ForOp_step :: "Operation \<Rightarrow> error + Value" where
  "ForOp_step forOp = getOpOperand forOp 2"

definition ForOp_getIterOperands :: "Operation \<Rightarrow> Value list" where
  "ForOp_getIterOperands forOp = drop 3 (opOperands forOp)"

definition ForOp_region :: "Operation \<Rightarrow> error + nat" where
  "ForOp_region forOp = getOpRegion forOp 0"

definition IfOp_condition :: "Operation \<Rightarrow> error + Value" where
  "IfOp_condition ifOp = getOpOperand ifOp 0"

definition IfOp_thenRegion :: "Operation \<Rightarrow> error + nat" where
  "IfOp_thenRegion ifOp = getOpRegion ifOp 0"

definition IfOp_elseRegion :: "Operation \<Rightarrow> error + nat" where
  "IfOp_elseRegion ifOp = getOpRegion ifOp 1"

definition getBlock :: "nat \<Rightarrow> Block Rewrite" where
  "getBlock b st = (case blocks st b of None \<Rightarrow> Inl AssertionFailed | Some B \<Rightarrow> Inr (B, st))"

definition argumentValues :: "nat \<Rightarrow> Type list \<Rightarrow> Value list" where
  "argumentValues b tys = map (\<lambda>i. BlockArgument b i (tys ! i)) [0..<length tys]"

definition getArguments :: "nat \<Rightarrow> Value list Rewrite" where
  "getArguments b = bindM (getBlock b) (\<lambda>B. returnM (argumentValues b (blockArguments B)))"

definition getArgument :: "nat \<Rightarrow> nat \<Rightarrow> Value Rewrite" where
  "getArgument b i =
     bindM (getBlock b) (\<lambda>B.
       if i < length (blockArguments B) then returnM (BlockArgument b i (blockArguments B ! i))
       else liftE (Inl AssertionFailed))"

definition blockBegin :: "nat \<Rightarrow> Iterator Rewrite" where
  "blockBegin b =
     bindM (getBlock b) (\<lambda>B.
       returnM (case blockOperations B of [] \<Rightarrow> AtEnd | x # _ \<Rightarrow> Before (opId x)))"

definition getTerminator :: "nat \<Rightarrow> Operation Rewrite" where
  "getTerminator b =
     bindM (getBlock b) (\<lambda>B.
       if blockOperations B = [] then liftE (Inl AssertionFailed)
       else returnM (last (blockOperations B)))"

definition regionEmpty :: "nat \<Rightarrow> bool Rewrite" where
  "regionEmpty r st = Inr (regions st r = [], st)"

definition region_front :: "nat \<Rightarrow> nat Rewrite" where
  "region_front r st = (case regions st r of [] \<Rightarrow> Inl AssertionFailed | b # _ \<Rightarrow> Inr (b, st))"

definition region_back :: "nat \<Rightarrow> nat Rewrite" where
  "region_back r st = (if regions st r = [] then Inl AssertionFailed else Inr (last (regions st r), st))"

subsection \<open>The rewriter\<close>

text \<open>
  Modelled from the spec: the pattern rewriter (\<open>PatternRewriter\<close> and \<open>OpBuilder\<close>) is
  not part of the source file of the lowering. Its operations are modelled after the
  comments at their call sites: \<open>splitBlock\<close> moves the operations from a position to the
  end of a block into a new block placed right after it; \<open>inlineRegionBefore\<close> moves all
  blocks of a region before a given block of another region; \<open>createBlock\<close> makes a new
  block with arguments of given types before a given block and moves the insertion point
  to its end; creating an operation inserts it at the insertion point; \<open>eraseOp\<close> removes
  an operation; \<open>replaceOp\<close> makes every use of the results of an operation use the given
  values instead and removes the operation.
\<close>

fun opIndex :: "nat \<Rightarrow> Operation list \<Rightarrow> nat option" where
  "opIndex i [] = None"
| "opIndex i (x # xs) = (if opId x = i then Some 0 else map_option Suc (opIndex i xs))"

definition positionOf :: "Iterator \<Rightarrow> Operation list \<Rightarrow> nat option" where
  "positionOf it ops = (case it of AtEnd \<Rightarrow> Some (length ops) | Before i \<Rightarrow> opIndex i ops)"

fun insertAfter :: "nat \<Rightarrow> nat \<Rightarrow> nat list \<Rightarrow> nat list" where
  "insertAfter b n [] = []"
| "insertAfter b n (x # xs) = (if x = b then x # n # xs else x # insertAfter b n xs)"

fun insertBefore :: "nat \<Rightarrow> nat list \<Rightarrow> nat list \<Rightarrow> nat list" where
  "insertBefore b ns [] = []"
| "insertBefore b ns (x # xs) = (if x = b then ns @ x # xs else x # insertBefore b ns xs)"

definition getInsertionBlock :: "nat Rewrite" where
  "getInsertionBlock st = Inr (insertionBlock st, st)"

definition getInsertionPoint :: "Iterator Rewrite" where
  "getInsertionPoint st = Inr (insertionPoint st, st)"

definition setInsertionPointToEnd :: "nat \<Rightarrow> unit Rewrite" where
  "setInsertionPointToEnd b st = Inr ((), st\<lparr>insertionBlock := b, insertionPoint := AtEnd\<rparr>)"

definition splitBlock :: "nat \<Rightarrow> Iterator \<Rightarrow> nat Rewrite" where
  "splitBlock b position st =
     (case blocks st b of
        None \<Rightarrow> Inl AssertionFailed
      | Some B \<Rightarrow>
          (case positionOf position (blockOperations B) of
             None \<Rightarrow> Inl AssertionFailed
           | Some pos \<Rightarrow>
               let n = nextBlock st;
                   newBlock = \<lparr>blockArguments = [],
                               blockOperations = drop pos (blockOperations B),
                               blockParent = blockParent B\<rparr>
               in Inr (n, st\<lparr>blocks := (blocks st)
                                  (b \<mapsto> B\<lparr>blockOperations := take pos (blockOperations B)\<rparr>,
                                   n \<mapsto> newBlock),
                               regions := (regions st)
                                  (blockParent B := insertAfter b n (regions st (blockParent B))),
                               nextBlock := n + 1\<rparr>)))"

definition createBlock :: "nat \<Rightarrow> Type list \<Rightarrow> nat Rewrite" where
  "createBlock beforeBlock argTypes st =
     (case blocks st beforeBlock of
        None \<Rightarrow> Inl AssertionFailed
      | Some B \<Rightarrow>
          let n = nextBlock st;
              newBlock = \<lparr>blockArguments = argTypes, blockOperations = [], blockParent = blockParent B\<rparr>
          in Inr (n, st\<lparr>blocks := (blocks st)(n \<mapsto> newBlock),
                          regions := (regions st)
                             (blockParent B := insertBefore beforeBlock [n] (regions st (blockParent B))),
                          insertionBlock := n,
                          insertionPoint := AtEnd,
                          nextBlock := n + 1\<rparr>))"

definition inlineRegionBefore :: "nat \<Rightarrow> nat \<Rightarrow> unit Rewrite" where
  "inlineRegionBefore region beforeBlock st =
     (case blocks st beforeBlock of
        None \<Rightarrow> Inl AssertionFailed
      | Some B \<Rightarrow>
          let moved = regions st region;
              parent = blockParent B
          in Inr ((), st\<lparr>blocks := (\<lambda>b. if b \<in> set moved
                                              then map_option (\<lambda>M. M\<lparr>blockParent := parent\<rparr>) (blocks st b)
                                              else blocks st b),
                           regions := (regions st)
                              (region := [], parent := insertBefore beforeBlock moved (regions st parent))\<rparr>))"

definition insertOp :: "Operation \<Rightarrow> unit Rewrite" where
  "insertOp operation st =
     (case blocks st (insertionBlock st) of
        None \<Rightarrow> Inl AssertionFailed
      | Some B \<Rightarrow>
          (case positionOf (insertionPoint st) (blockOperations B) of
             None \<Rightarrow> Inl AssertionFailed
           | Some pos \<Rightarrow>
               Inr ((), st\<lparr>blocks := (blocks st)
                              (insertionBlock st \<mapsto>
                                 B\<lparr>blockOperations :=
                                      take pos (blockOperations B) @ [operation] @ drop pos (blockOperations B)\<rparr>)\<rparr>)))"

definition freshOpId :: "nat Rewrite" where
  "freshOpId st = Inr (nextOp st, st\<lparr>nextOp := nextOp st + 1\<rparr>)"

definition typeOf :: "Value \<Rightarrow> Type" where
  "typeOf v = (case v of OpResult _ _ t \<Rightarrow> t | BlockArgument _ _ t \<Rightarrow> t | NullValue \<Rightarrow> OtherType 0)"

definition create_AddIOp :: "nat \<Rightarrow> Value \<Rightarrow> Value \<Rightarrow> Operation Rewrite" where
  "create_AddIOp loc lhs rhs =
     bindM freshOpId (\<lambda>i.
       let operation = \<lparr>opId = i, opName = AddIOp, opLoc = loc, opOperands = [lhs, rhs],
                 opResultTypes = [typeOf lhs], opSuccessors = [], opRegions = []\<rparr>
       in bindM (insertOp operation) (\<lambda>_. returnM operation))"

definition create_CmpIOp :: "nat \<Rightarrow> CmpIPredicate \<Rightarrow> Value \<Rightarrow> Value \<Rightarrow> Operation Rewrite" where
  "create_CmpIOp loc predicate lhs rhs =
     bindM freshOpId (\<lambda>i.
       let operation = \<lparr>opId = i, opName = CmpIOp predicate, opLoc = loc, opOperands = [lhs, rhs],
                 opResultTypes = [IntegerType 1], opSuccessors = [], opRegions = []\<rparr>
       in bindM (insertOp operation) (\<lambda>_. returnM operation))"

definition create_BranchOp :: "nat \<Rightarrow> nat \<Rightarrow> Value list \<Rightarrow> Operation Rewrite" where
  "create_BranchOp loc dest destOperands =
     bindM freshOpId (\<lambda>i.
       let operation = \<lparr>opId = i, opName = BranchOp, opLoc = loc, opOperands = [],
                 opResultTypes = [], opSuccessors = [(dest, destOperands)], opRegions = []\<rparr>
       in bindM (insertOp operation) (\<lambda>_. returnM operation))"

definition create_CondBranchOp ::
  "nat \<Rightarrow> Value \<Rightarrow> nat \<Rightarrow> Value list \<Rightarrow> nat \<Rightarrow> Value list \<Rightarrow> Operation Rewrite" where
  "create_CondBranchOp loc condition trueDest trueOperands falseDest falseOperands =
     bindM freshOpId (\<lambda>i.
       let operation = \<lparr>opId = i, opName = CondBranchOp, opLoc = loc, opOperands = [condition],
                 opResultTypes = [],
                 opSuccessors = [(trueDest, trueOperands), (falseDest, falseOperands)],
                 opRegions = []\<rparr>
       in bindM (insertOp operation) (\<lambda>_. returnM operation))"

definition eraseFromBlock :: "nat \<Rightarrow> Block \<Rightarrow> Block" where
  "eraseFromBlock i B = B\<lparr>blockOperations := filter (\<lambda>x. opId x \<noteq> i) (blockOperations B)\<rparr>"

definition eraseOp :: "Operation \<Rightarrow> unit Rewrite" where
  "eraseOp operation st = Inr ((), st\<lparr>blocks := (\<lambda>b. map_option (eraseFromBlock (opId operation)) (blocks st b))\<rparr>)"

definition replaceValue :: "(Value \<times> Value) list \<Rightarrow> Value \<Rightarrow> Value" where
  "replaceValue m v = (case map_of m v of None \<Rightarrow> v | Some w \<Rightarrow> w)"

definition replaceUsesInOp :: "(Value \<times> Value) list \<Rightarrow> Operation \<Rightarrow> Operation" where
  "replaceUsesInOp m operation =
     operation\<lparr>opOperands := map (replaceValue m) (opOperands operation),
        opSuccessors := map (\<lambda>(b, vs). (b, map (replaceValue m) vs)) (opSuccessors operation)\<rparr>"

definition replaceUsesInBlock :: "(Value \<times> Value) list \<Rightarrow> Block \<Rightarrow> Block" where
  "replaceUsesInBlock m B = B\<lparr>blockOperations := map (replaceUsesInOp m) (blockOperations B)\<rparr>"

definition getResults :: "Operation \<Rightarrow> Value list" where
  "getResults operation = map (getResult operation) [0..<getNumResults operation]"

definition replaceOp :: "Operation \<Rightarrow> Value list \<Rightarrow> unit Rewrite" where
  "replaceOp operation newValues st =
     (if getNumResults operation \<noteq> length newValues then Inl AssertionFailed
      else let m = zip (getResults operation) newValues
           in eraseOp operation
                (st\<lparr>blocks := (\<lambda>b. map_option (replaceUsesInBlock m) (blocks st b))\<rparr>))"

subsection \<open>The lowering patterns\<close>

text \<open>
  The pattern driver sets the insertion point before the operation it hands to a pattern.
  The body of each pattern follows the source statement by statement; a pointer to a
  block is its identifier, a pointer to an operation is the operation with its identifier.
\<close>

definition ForLowering_matchAndRewrite :: "Operation \<Rightarrow> LogicalResult Rewrite" where
  "ForLowering_matchAndRewrite forOp =
     (let loc = opLoc forOp in
      bindM getInsertionBlock (\<lambda>initBlock.
      bindM getInsertionPoint (\<lambda>initPosition.
      bindM (splitBlock initBlock initPosition) (\<lambda>endBlock.
      bindM (liftE (ForOp_region forOp)) (\<lambda>region.
      bindM (region_front region) (\<lambda>conditionBlock.
      bindM (blockBegin conditionBlock) (\<lambda>conditionBegin.
      bindM (splitBlock conditionBlock conditionBegin) (\<lambda>firstBodyBlock.
      bindM (region_back region) (\<lambda>lastBodyBlock.
      bindM (inlineRegionBefore region endBlock) (\<lambda>_.
      bindM (getArgument conditionBlock 0) (\<lambda>iv.
      bindM (getTerminator lastBodyBlock) (\<lambda>terminator.
      bindM (setInsertionPointToEnd lastBodyBlock) (\<lambda>_.
      bindM (liftE (ForOp_step forOp)) (\<lambda>step.
      bindM (create_AddIOp loc iv step) (\<lambda>addi.
      let stepped = getResult addi 0 in
      if stepped = NullValue then returnM failure
      else
        let loopCarried = [stepped] @ opOperands terminator in
        bindM (create_BranchOp loc conditionBlock loopCarried) (\<lambda>_.
        bindM (eraseOp terminator) (\<lambda>_.
        bindM (setInsertionPointToEnd initBlock) (\<lambda>_.
        bindM (liftE (ForOp_lowerBound forOp)) (\<lambda>lowerBound.
        bindM (liftE (ForOp_upperBound forOp)) (\<lambda>upperBound.
        if lowerBound = NullValue \<or> upperBound = NullValue then returnM failure
        else
          let destOperands = [lowerBound] @ ForOp_getIterOperands forOp in
          bindM (create_BranchOp loc conditionBlock destOperands) (\<lambda>_.
          bindM (setInsertionPointToEnd conditionBlock) (\<lambda>_.
          bindM (create_CmpIOp loc slt iv upperBound) (\<lambda>comparison.
          bindM (create_CondBranchOp loc (getResult comparison 0) firstBodyBlock [] endBlock []) (\<lambda>_.
          bindM (getArguments conditionBlock) (\<lambda>arguments.
          bindM (replaceOp forOp (drop 1 arguments)) (\<lambda>_.
          returnM success))))))))))))))))))))))))))"

text \<open>The part of \<open>IfLowering\<close> that is the same for the "then" and the "else" region.\<close>

definition branchFromRegion :: "nat \<Rightarrow> nat \<Rightarrow> nat \<Rightarrow> unit Rewrite" where
  "branchFromRegion loc region continueBlock =
     bindM (region_back region) (\<lambda>lastBlock.
     bindM (getTerminator lastBlock) (\<lambda>terminator.
     let terminatorOperands = opOperands terminator in
     bindM (setInsertionPointToEnd lastBlock) (\<lambda>_.
     bindM (create_BranchOp loc continueBlock terminatorOperands) (\<lambda>_.
     bindM (eraseOp terminator) (\<lambda>_.
     inlineRegionBefore region continueBlock)))))"

definition IfLowering_matchAndRewrite :: "Operation \<Rightarrow> LogicalResult Rewrite" where
  "IfLowering_matchAndRewrite ifOp =
     (let loc = opLoc ifOp in
      bindM getInsertionBlock (\<lambda>condBlock.
      bindM getInsertionPoint (\<lambda>opPosition.
      bindM (splitBlock condBlock opPosition) (\<lambda>remainingOpsBlock.
      bindM (if getNumResults ifOp = 0 then returnM remainingOpsBlock
             else bindM (createBlock remainingOpsBlock (opResultTypes ifOp)) (\<lambda>newBlock.
                  bindM (create_BranchOp loc remainingOpsBlock []) (\<lambda>_.
                  returnM newBlock))) (\<lambda>continueBlock.
      bindM (liftE (IfOp_thenRegion ifOp)) (\<lambda>thenRegion.
      bindM (region_front thenRegion) (\<lambda>thenBlock.
      bindM (branchFromRegion loc thenRegion continueBlock) (\<lambda>_.
      bindM (liftE (IfOp_elseRegion ifOp)) (\<lambda>elseRegion.
      bindM (regionEmpty elseRegion) (\<lambda>elseEmpty.
      bindM (if \<not> elseEmpty
             then bindM (region_front elseRegion) (\<lambda>elseFront.
                  bindM (branchFromRegion loc elseRegion continueBlock) (\<lambda>_.
                  returnM elseFront))
             else returnM continueBlock) (\<lambda>elseBlock.
      bindM (setInsertionPointToEnd condBlock) (\<lambda>_.
      bindM (liftE (IfOp_condition ifOp)) (\<lambda>condition.
      bindM (create_CondBranchOp loc condition thenBlock [] elseBlock []) (\<lambda>_.
      bindM (getArguments continueBlock) (\<lambda>arguments.
      bindM (replaceOp ifOp arguments) (\<lambda>_.
      returnM success))))))))))))))))"

subsection \<open>The control-flow graph of a region\<close>

text \<open>
  The control-flow edges leaving a block are the successors of its operations. A set of
  blocks \<open>entry # inner @ [exit]\<close> of a region is a subgraph with a single entry and a
  single exit when no block outside it branches to a block of it other than \<open>entry\<close>,
  and no block of it other than \<open>exit\<close> branches out of it.
\<close>

definition opsSuccessors :: "Operation list \<Rightarrow> nat list" where
  "opsSuccessors ops = concat (map (\<lambda>operation. map fst (opSuccessors operation)) ops)"

definition blockSuccessors :: "IR \<Rightarrow> nat \<Rightarrow> nat list" where
  "blockSuccessors st b =
     (case blocks st b of None \<Rightarrow> [] | Some B \<Rightarrow> opsSuccessors (blockOperations B))"

definition singleEntrySingleExit :: "IR \<Rightarrow> nat list \<Rightarrow> nat \<Rightarrow> nat list \<Rightarrow> nat \<Rightarrow> bool" where
  "singleEntrySingleExit st outside entry inner exit =
     ((\<forall>b \<in> set outside. \<forall>s \<in> set (blockSuccessors st b). s \<notin> set inner \<and> s \<noteq> exit) \<and>
      (\<forall>b \<in> set (entry # inner). \<forall>s \<in> set (blockSuccessors st b). s \<in> set (entry # inner @ [exit])))"

text \<open>What a rewrite left behind, for stating results on concrete inputs.\<close>

definition regionAfter :: "error + (LogicalResult \<times> IR) \<Rightarrow> nat \<Rightarrow> nat list" where
  "regionAfter r R = (case r of Inl _ \<Rightarrow> [] | Inr (_, st) \<Rightarrow> regions st R)"

definition successorsAfter :: "error + (LogicalResult \<times> IR) \<Rightarrow> nat \<Rightarrow> nat list" where
  "successorsAfter r b = (case r of Inl _ \<Rightarrow> [] | Inr (_, st) \<Rightarrow> blockSuccessors st b)"

definition blockAfter :: "error + (LogicalResult \<times> IR) \<Rightarrow> nat \<Rightarrow> Block option" where
  "blockAfter r b = (case r of Inl _ \<Rightarrow> None | Inr (_, st) \<Rightarrow> blocks st b)"

section \<open>Example inputs\<close>

text \<open>
  A small target description and a few instructions, on which the theorems below are
  evaluated.
\<close>

definition exampleTarget :: PPCTarget where
  "exampleTarget =
     \<lparr>IsLittleEndian = True, BL8_NOTOC = 7, MTOCRF = 20, MTOCRF8 = 21, MFOCRF = 22, MFOCRF8 = 23,
      CR0 = 100, CR7 = 107,
      getEncodingValue = (\<lambda>r. of_nat (r mod 32)),
      getRegNumForOperand = (\<lambda>opc r i. r),
      getSize = (\<lambda>opc. if opc = 0 then 0 else if opc < 50 then 4 else 8),
      getBinaryCodeForInstr = (\<lambda>MI F. Inr (0x0123456789ABCDEF, F)),
      verifyInstructionPredicates = (\<lambda>MI. Inr ())\<rparr>"

definition exampleBranch :: MCInst where
  "exampleBranch = \<lparr>Opcode = 7, Operands = [MOExpr (MCExpr 1)]\<rparr>"

definition exampleBranchImm :: MCInst where
  "exampleBranchImm = \<lparr>Opcode = 8, Operands = [MOImm (- 4)]\<rparr>"

definition exampleLoad :: MCInst where
  "exampleLoad = \<lparr>Opcode = 9, Operands = [MOReg 3, MOImm 32, MOReg 5]\<rparr>"

definition examplePCRel :: MCInst where
  "examplePCRel = \<lparr>Opcode = 60, Operands = [MOReg 3, MOImm 12, MOImm (2 ^ 30)]\<rparr>"

definition exampleWideImm :: MCInst where
  "exampleWideImm = \<lparr>Opcode = 9, Operands = [MOImm 0x1FFFFFFFF]\<rparr>"

definition exampleVE :: VETarget where
  "exampleVE = \<lparr>getRegisterName = (\<lambda>r. ''SX'' @ write_unsigned r), printExpr = (\<lambda>e. ''sym'')\<rparr>"

text \<open>
  A \<open>loop.for\<close> with one loop-carried value, whose body is a single block, in the only block
  of its region (\<open>exampleForIR\<close>) and in the second block of its region
  (\<open>exampleFor2IR\<close>); a \<open>loop.if\<close> with one result and both regions
  (\<open>exampleIfIR\<close>); and either operation in the first of two blocks, with a use of
  its result in the second (\<open>exampleFor3IR\<close>, \<open>exampleIf3IR\<close>).
\<close>

definition exampleYield :: Operation where
  "exampleYield = \<lparr>opId = 21, opName = YieldOp, opLoc = 0,
                    opOperands = [OpResult 20 0 (OtherType 7)], opResultTypes = [],
                    opSuccessors = [], opRegions = []\<rparr>"

definition exampleBodyOp :: Operation where
  "exampleBodyOp = \<lparr>opId = 20, opName = OtherOp 1, opLoc = 0,
                     opOperands = [BlockArgument 1 0 IndexType, BlockArgument 1 1 (OtherType 7)],
                     opResultTypes = [OtherType 7], opSuccessors = [], opRegions = []\<rparr>"

definition exampleFor :: Operation where
  "exampleFor = \<lparr>opId = 10, opName = ForOp, opLoc = 5,
                  opOperands = [OpResult 1 0 IndexType, OpResult 2 0 IndexType,
                                OpResult 3 0 IndexType, OpResult 4 0 (OtherType 7)],
                  opResultTypes = [OtherType 7], opSuccessors = [], opRegions = [1]\<rparr>"

definition exampleUse :: Operation where
  "exampleUse = \<lparr>opId = 11, opName = OtherOp 2, opLoc = 0,
                  opOperands = [OpResult 10 0 (OtherType 7)], opResultTypes = [],
                  opSuccessors = [], opRegions = []\<rparr>"

definition exampleDefs :: "Operation list" where
  "exampleDefs = map (\<lambda>i. \<lparr>opId = i, opName = OtherOp 0, opLoc = 0, opOperands = [],
                             opResultTypes = [if i = 4 then OtherType 7 else IndexType],
                             opSuccessors = [], opRegions = []\<rparr>) [1, 2, 3, 4]"

definition exampleForIR :: IR where
  "exampleForIR =
     \<lparr>blocks = (Map.empty
         (0 \<mapsto> \<lparr>blockArguments = [], blockOperations = exampleDefs @ [exampleFor, exampleUse],
                  blockParent = 0\<rparr>,
          1 \<mapsto> \<lparr>blockArguments = [IndexType, OtherType 7],
                  blockOperations = [exampleBodyOp, exampleYield], blockParent = 1\<rparr>)),
      regions = ((\<lambda>r. [])(0 := [0], 1 := [1])),
      insertionBlock = 0, insertionPoint = Before 10, nextBlock = 2, nextOp = 30\<rparr>"

definition exampleEntryBranch :: Operation where
  "exampleEntryBranch = \<lparr>opId = 9, opName = BranchOp, opLoc = 0, opOperands = [],
                          opResultTypes = [], opSuccessors = [(0, [])], opRegions = []\<rparr>"

definition exampleFor2IR :: IR where
  "exampleFor2IR =
     \<lparr>blocks = (Map.empty
         (5 \<mapsto> \<lparr>blockArguments = [], blockOperations = [exampleEntryBranch], blockParent = 0\<rparr>,
          0 \<mapsto> \<lparr>blockArguments = [], blockOperations = exampleDefs @ [exampleFor, exampleUse],
                  blockParent = 0\<rparr>,
          1 \<mapsto> \<lparr>blockArguments = [IndexType, OtherType 7],
                  blockOperations = [exampleBodyOp, exampleYield], blockParent = 1\<rparr>)),
      regions = ((\<lambda>r. [])(0 := [5, 0], 1 := [1])),
      insertionBlock = 0, insertionPoint = Before 10, nextBlock = 6, nextOp = 30\<rparr>"

definition exampleIf :: Operation where
  "exampleIf = \<lparr>opId = 10, opName = IfOp, opLoc = 5,
                 opOperands = [OpResult 1 0 (IntegerType 1)],
                 opResultTypes = [OtherType 7], opSuccessors = [], opRegions = [1, 2]\<rparr>"

definition exampleThenYield :: Operation where
  "exampleThenYield = \<lparr>opId = 21, opName = YieldOp, opLoc = 0,
                        opOperands = [OpResult 2 0 (OtherType 7)], opResultTypes = [],
                        opSuccessors = [], opRegions = []\<rparr>"

definition exampleElseYield :: Operation where
  "exampleElseYield = \<lparr>opId = 22, opName = YieldOp, opLoc = 0,
                        opOperands = [OpResult 3 0 (OtherType 7)], opResultTypes = [],
                        opSuccessors = [], opRegions = []\<rparr>"

definition exampleIfDefs :: "Operation list" where
  "exampleIfDefs = map (\<lambda>i. \<lparr>opId = i, opName = OtherOp 0, opLoc = 0, opOperands = [],
                               opResultTypes = [if i = 1 then IntegerType 1 else OtherType 7],
                               opSuccessors = [], opRegions = []\<rparr>) [1, 2, 3]"

definition exampleIfIR :: IR where
  "exampleIfIR =
     \<lparr>blocks = (Map.empty
         (0 \<mapsto> \<lparr>blockArguments = [], blockOperations = exampleIfDefs @ [exampleIf, exampleUse],
                  blockParent = 0\<rparr>,
          1 \<mapsto> \<lparr>blockArguments = [], blockOperations = [exampleThenYield], blockParent = 1\<rparr>,
          2 \<mapsto> \<lparr>blockArguments = [], blockOperations = [exampleElseYield], blockParent = 2\<rparr>)),
      regions = ((\<lambda>r. [])(0 := [0], 1 := [1], 2 := [2])),
      insertionBlock = 0, insertionPoint = Before 10, nextBlock = 3, nextOp = 30\<rparr>"


definition exampleLateBranch :: Operation where
  "exampleLateBranch = \<lparr>opId = 13, opName = BranchOp, opLoc = 0, opOperands = [],
                         opResultTypes = [], opSuccessors = [(8, [])], opRegions = []\<rparr>"

definition exampleLateUse :: Operation where
  "exampleLateUse = \<lparr>opId = 12, opName = OtherOp 3, opLoc = 0,
                      opOperands = [OpResult 10 0 (OtherType 7)], opResultTypes = [],
                      opSuccessors = [], opRegions = []\<rparr>"

definition exampleFor3IR :: IR where
  "exampleFor3IR =
     \<lparr>blocks = (Map.empty
         (0 \<mapsto> \<lparr>blockArguments = [],
                  blockOperations = exampleDefs @ [exampleFor, exampleUse, exampleLateBranch],
                  blockParent = 0\<rparr>,
          1 \<mapsto> \<lparr>blockArguments = [IndexType, OtherType 7],
                  blockOperations = [exampleBodyOp, exampleYield], blockParent = 1\<rparr>,
          8 \<mapsto> \<lparr>blockArguments = [], blockOperations = [exampleLateUse], blockParent = 0\<rparr>)),
      regions = ((\<lambda>r. [])(0 := [0, 8], 1 := [1])),
      insertionBlock = 0, insertionPoint = Before 10, nextBlock = 9, nextOp = 30\<rparr>"

definition exampleIf3IR :: IR where
  "exampleIf3IR =
     \<lparr>blocks = (Map.empty
         (0 \<mapsto> \<lparr>blockArguments = [],
                  blockOperations = exampleIfDefs @ [exampleIf, exampleUse, exampleLateBranch],
                  blockParent = 0\<rparr>,
          1 \<mapsto> \<lparr>blockArguments = [], blockOperations = [exampleThenYield], blockParent = 1\<rparr>,
          2 \<mapsto> \<lparr>blockArguments = [], blockOperations = [exampleElseYield], blockParent = 2\<rparr>,
          8 \<mapsto> \<lparr>blockArguments = [], blockOperations = [exampleLateUse], blockParent = 0\<rparr>)),
      regions = ((\<lambda>r. [])(0 := [0, 8], 1 := [1], 2 := [2])),
      insertionBlock = 0, insertionPoint = Before 10, nextBlock = 9, nextOp = 30\<rparr>"

section \<open>Properties of the PowerPC code emitter\<close>

subsection \<open>Auxiliary facts\<close>

lemma getMachineOpValue_Fixups:
  "getMachineOpValue T MI ref MO Fixups = Inr (v, F) \<Longrightarrow> F = Fixups"
  by (auto simp: getMachineOpValue_def split: MCOperand.splits if_splits sum.splits)

lemma getMachineOpValue_Imm: "getMachineOpValue T MI ref (MOImm v) Fixups = Inr (v, Fixups)"
  by (simp add: getMachineOpValue_def)

lemma getOpIdxForMO_loop_finds:
  "i \<le> ref \<Longrightarrow> ref < i + k \<Longrightarrow> getOpIdxForMO_loop ref i k = Inr ref"
  by (induction k arbitrary: i) auto

lemma getOpIdxForMO_in_range:
  "ref < getNumOperands MI \<Longrightarrow> getOpIdxForMO MI ref = Inr ref"
  by (simp add: getOpIdxForMO_def getOpIdxForMO_loop_finds)

lemma getMachineOpValue_Reg:
  assumes "ref < getNumOperands MI"
    and "(Opcode MI \<noteq> MTOCRF T \<and> Opcode MI \<noteq> MTOCRF8 T \<and> Opcode MI \<noteq> MFOCRF T \<and>
          Opcode MI \<noteq> MFOCRF8 T) \<or> r < CR0 T \<or> r > CR7 T"
  shows "getMachineOpValue T MI ref (MOReg r) Fixups =
           Inr (ucast (getEncodingValue T (getRegNumForOperand T (Opcode MI) r ref)), Fixups)"
  using assms by (auto simp: getMachineOpValue_def getOpIdxForMO_in_range)

lemma smod_16_iff_dvd: "(sint (d :: 64 word) smod 16 = 0) = (16 dvd sint d)"
proof -
  have "(- x mod 16 = 0) = (x mod 16 = 0)" for x :: int
    by presburger
  then show ?thesis
    by (simp add: smod_int_alt_def sgn_if dvd_eq_mod_eq_0)
qed

lemma memrix16_bits:
  "(ucast ((drop_bit 4 (d :: 64 word) AND 0xFFF) OR
           ucast (ucast (push_bit 12 (v :: 64 word)) :: 32 word)) :: 32 word)
     = (ucast (drop_bit 4 d) AND 0xFFF) OR push_bit 12 (ucast v)"
  by (rule bit_word_eqI) (auto simp: bit_simps)

lemma bytes_of_word32:
  "ucast (ucast (W :: 32 word) :: 8 word) OR
     push_bit 8 (ucast (ucast (drop_bit 8 W) :: 8 word)) OR
     push_bit 16 (ucast (ucast (drop_bit 16 W) :: 8 word)) OR
     push_bit 24 (ucast (ucast (drop_bit 24 W) :: 8 word)) = W"
proof (rule bit_word_eqI)
  fix n :: nat
  assume "n < LENGTH(32)"
  then consider "n < 8" | "8 \<le> n" "n < 16" | "16 \<le> n" "n < 24" | "24 \<le> n" "n < 32"
    by fastforce
  then show "bit (ucast (ucast W :: 8 word) OR
     push_bit 8 (ucast (ucast (drop_bit 8 W) :: 8 word)) OR
     push_bit 16 (ucast (ucast (drop_bit 16 W) :: 8 word)) OR
     push_bit 24 (ucast (ucast (drop_bit 24 W) :: 8 word)) :: 32 word) n = bit W n"
    by cases (auto simp: bit_simps)
qed

lemma endian_write32_append: "endian_write32 OS V E = OS @ endian_write32 [] V E"
  by (cases E) (simp_all add: endian_write32_def Let_def)

lemma length_endian_write32: "length (endian_write32 OS V E) = length OS + 4"
  by (cases E) (simp_all add: endian_write32_def Let_def)

lemma endian_read32_write32: "endian_read32 (endian_write32 [] V E) E = ucast V"
  by (cases E) (simp_all add: endian_read32_def endian_write32_def Let_def bytes_of_word32)

lemma encodeInstruction_other_size:
  assumes "verifyInstructionPredicates T MI = Inr ()"
    and "getBinaryCodeForInstr T MI Fixups = Inr (Bits, Fixups')"
    and "getInstSizeInBytes T MI \<notin> {0, 4, 8}"
  shows "encodeInstruction T MI OS Fixups n = Inl Unreachable"
  using assms by (simp add: encodeInstruction_def)

lemma getOperand_error: "getOperand MI i = Inl e \<Longrightarrow> e = AssertionFailed"
  by (simp add: getOperand_def split: if_splits)

lemma getOpIdxForMO_loop_error: "getOpIdxForMO_loop ref i k = Inl e \<Longrightarrow> e = Unreachable"
  by (induction k arbitrary: i) (auto split: if_splits)

lemma getMachineOpValue_error:
  "getMachineOpValue T MI ref MO Fixups = Inl e \<Longrightarrow> e = AssertionFailed \<or> e = Unreachable"
  by (auto simp: getMachineOpValue_def getOpIdxForMO_def
      split: MCOperand.splits if_splits sum.splits dest: getOpIdxForMO_loop_error)

lemma getMemRI34PCRelEncoding_fatal_iff:
  assumes "getOperand MI (unat (OpNo + 1)) = Inr (MOImm r)"
  shows "(getMemRI34PCRelEncoding T MI OpNo Fixups = Inl (FatalError ''Operand must be 0''))
           = (push_bit 34 r \<noteq> 0)"
  using assms
  by (auto simp: getMemRI34PCRelEncoding_def isImm_def getMachineOpValue_Imm Let_def
      split: sum.splits dest: getOperand_error getMachineOpValue_error)

lemma getMemRI34PCRelEncoding_zero:
  assumes "getOperand MI (unat (OpNo + 1)) = Inr (MOImm 0)"
    and "getOperand MI (unat OpNo) = Inr MO"
    and "getMachineOpValue T MI (unat OpNo) MO Fixups = Inr (v, F)"
  shows "getMemRI34PCRelEncoding T MI OpNo Fixups = Inr (v AND 0x3FFFFFFFF, Fixups)"
proof -
  from assms(3) have "F = Fixups"
    by (rule getMachineOpValue_Fixups)
  with assms show ?thesis
    by (simp add: getMemRI34PCRelEncoding_def isImm_def getMachineOpValue_Imm)
qed

subsection \<open>Branch targets that are expressions\<close>

text \<open>
  Claim C1. When the operand selected by \<open>OpNo\<close> is an expression (neither a register
  nor an immediate), each of the four branch encoders returns 0 and appends exactly one
  fixup to the list: at offset 0, for that expression, of kind \<open>fixup_ppc_br24_notoc\<close>
  (opcode \<open>BL8_NOTOC\<close>) or \<open>fixup_ppc_br24\<close> (any other opcode) for
  \<open>getDirectBrEncoding\<close>, and of kind \<open>fixup_ppc_brcond14\<close>, \<open>fixup_ppc_br24abs\<close>,
  \<open>fixup_ppc_brcond14abs\<close> for the conditional, absolute and absolute conditional
  encoders.
\<close>

theorem branch_encoders_expr_fixup:
  assumes "getOperand MI (unat OpNo) = Inr (MOExpr ex)"
  shows "getDirectBrEncoding T MI OpNo Fixups =
           Inr (0, Fixups @ [\<lparr>Offset = 0, Value = ex,
                              Kind = (if Opcode MI = BL8_NOTOC T then fixup_ppc_br24_notoc
                                      else fixup_ppc_br24)\<rparr>])
       \<and> getCondBrEncoding T MI OpNo Fixups =
           Inr (0, Fixups @ [\<lparr>Offset = 0, Value = ex, Kind = fixup_ppc_brcond14\<rparr>])
       \<and> getAbsDirectBrEncoding T MI OpNo Fixups =
           Inr (0, Fixups @ [\<lparr>Offset = 0, Value = ex, Kind = fixup_ppc_br24abs\<rparr>])
       \<and> getAbsCondBrEncoding T MI OpNo Fixups =
           Inr (0, Fixups @ [\<lparr>Offset = 0, Value = ex, Kind = fixup_ppc_brcond14abs\<rparr>])"
  using assms
  by (simp add: getDirectBrEncoding_def getCondBrEncoding_def getAbsDirectBrEncoding_def
      getAbsCondBrEncoding_def isReg_def isImm_def getExpr_def MCFixup_create_def)

theorem branch_encoders_expr_fixup_witness:
  "getOperand exampleBranch (unat (0 :: 32 word)) = Inr (MOExpr (MCExpr 1))
   \<and> getDirectBrEncoding exampleTarget exampleBranch 0 [] =
       Inr (0, [\<lparr>Offset = 0, Value = MCExpr 1, Kind = fixup_ppc_br24_notoc\<rparr>])
   \<and> getCondBrEncoding exampleTarget exampleBranch 0 [] =
       Inr (0, [\<lparr>Offset = 0, Value = MCExpr 1, Kind = fixup_ppc_brcond14\<rparr>])
   \<and> getAbsDirectBrEncoding exampleTarget exampleBranch 0 [] =
       Inr (0, [\<lparr>Offset = 0, Value = MCExpr 1, Kind = fixup_ppc_br24abs\<rparr>])
   \<and> getAbsCondBrEncoding exampleTarget exampleBranch 0 [] =
       Inr (0, [\<lparr>Offset = 0, Value = MCExpr 1, Kind = fixup_ppc_brcond14abs\<rparr>])"
proof -
  have h: "getOperand exampleBranch (unat (0 :: 32 word)) = Inr (MOExpr (MCExpr 1))"
    by (simp add: getOperand_def exampleBranch_def)
  show ?thesis
    using h branch_encoders_expr_fixup [OF h, of exampleTarget "[]"]
    by (simp add: exampleTarget_def exampleBranch_def)
qed

subsection \<open>Operands that are registers or immediates\<close>

text \<open>
  Claim C5, as the code has it. When the operand selected by \<open>OpNo\<close> is a register or an
  immediate, each of \<open>getDirectBrEncoding\<close>, \<open>getCondBrEncoding\<close>,
  \<open>getAbsDirectBrEncoding\<close>, \<open>getAbsCondBrEncoding\<close> and \<open>getImm16Encoding\<close> fails
  where \<open>getMachineOpValue\<close> of that operand fails, and otherwise returns the low 32 bits
  of the 64-bit value of \<open>getMachineOpValue\<close> (the encoders return \<open>unsigned\<close>) and
  the fixup list it was given, unchanged. The value is the same number whenever it is below
  \<open>2^32\<close>.
\<close>

theorem encoders_reg_imm_no_fixup:
  assumes "getOperand MI (unat OpNo) = Inr MO" and "isReg MO \<or> isImm MO"
    and "R = (case getMachineOpValue T MI (unat OpNo) MO Fixups of
                Inl e \<Rightarrow> Inl e | Inr (v, F) \<Rightarrow> Inr (ucast v :: 32 word, Fixups))"
  shows "getDirectBrEncoding T MI OpNo Fixups = R
       \<and> getCondBrEncoding T MI OpNo Fixups = R
       \<and> getAbsDirectBrEncoding T MI OpNo Fixups = R
       \<and> getAbsCondBrEncoding T MI OpNo Fixups = R
       \<and> getImm16Encoding T MI OpNo Fixups = R
       \<and> (\<forall>v F. getMachineOpValue T MI (unat OpNo) MO Fixups = Inr (v, F) \<and> unat v < 2 ^ 32
             \<longrightarrow> unat (ucast v :: 32 word) = unat v)"
proof -
  have "unat (ucast v :: 32 word) = unat v" if "unat v < 2 ^ 32" for v :: "64 word"
    using that by (simp add: unsigned_ucast_eq take_bit_nat_eq_self)
  then show ?thesis
    using assms
    by (auto simp: getDirectBrEncoding_def getCondBrEncoding_def getAbsDirectBrEncoding_def
        getAbsCondBrEncoding_def getImm16Encoding_def returnUnsigned_def
        dest: getMachineOpValue_Fixups split: sum.splits)
qed

theorem encoders_reg_imm_no_fixup_witness:
  "getOperand exampleLoad (unat (2 :: 32 word)) = Inr (MOReg 5) \<and> (isReg (MOReg 5) \<or> isImm (MOReg 5))
   \<and> getMachineOpValue exampleTarget exampleLoad (unat (2 :: 32 word)) (MOReg 5) [] = Inr (5, [])
   \<and> getDirectBrEncoding exampleTarget exampleLoad 2 [] = Inr (5, [])
   \<and> getCondBrEncoding exampleTarget exampleLoad 2 [] = Inr (5, [])
   \<and> getAbsDirectBrEncoding exampleTarget exampleLoad 2 [] = Inr (5, [])
   \<and> getAbsCondBrEncoding exampleTarget exampleLoad 2 [] = Inr (5, [])
   \<and> getImm16Encoding exampleTarget exampleLoad 2 [] = Inr (5, [])"
proof -
  have h: "getOperand exampleLoad (unat (2 :: 32 word)) = Inr (MOReg 5)"
    by (simp add: getOperand_def exampleLoad_def)
  have k: "isReg (MOReg 5) \<or> isImm (MOReg 5)"
    by (simp add: isReg_def)
  have g: "getMachineOpValue exampleTarget exampleLoad (unat (2 :: 32 word)) (MOReg 5) [] = Inr (5, [])"
    by (simp add: getMachineOpValue_def getOpIdxForMO_def getNumOperands_def exampleLoad_def
        exampleTarget_def numeral_3_eq_3)
  show ?thesis
    using h k g encoders_reg_imm_no_fixup [OF h k refl, of exampleTarget "[]"]
    by simp
qed

text \<open>
  The claim as written, that the encoders return \<open>getMachineOpValue\<close> of the operand,
  fails for an immediate outside \<open>0 \<dots> 2^32 - 1\<close>: a backward branch displacement of
  \<open>-4\<close> has the 64-bit machine operand value \<open>2^64 - 4\<close>, and the encoder returns
  \<open>2^32 - 4\<close>.
\<close>

theorem encoders_return_value_counterexample:
  "getOperand exampleBranchImm (unat (0 :: 32 word)) = Inr (MOImm (- 4))
   \<and> isImm (MOImm (- 4))
   \<and> getMachineOpValue exampleTarget exampleBranchImm (unat (0 :: 32 word)) (MOImm (- 4)) [] =
       Inr (0xFFFFFFFFFFFFFFFC, [])
   \<and> getDirectBrEncoding exampleTarget exampleBranchImm 0 [] = Inr (0xFFFFFFFC, [])
   \<and> unat (0xFFFFFFFC :: 32 word) \<noteq> unat (0xFFFFFFFFFFFFFFFC :: 64 word)"
  by (simp add: getOperand_def exampleBranchImm_def isImm_def isReg_def getMachineOpValue_def
      getDirectBrEncoding_def returnUnsigned_def)

subsection \<open>Memory operands\<close>

text \<open>
  Claim C10. \<open>getMemRIX16Encoding\<close>, given a register at \<open>OpNo + 1\<close> whose machine
  operand value is available and an immediate displacement \<open>d\<close> at \<open>OpNo\<close>, requires
  \<open>d\<close> to be a multiple of 16: if it is, no assertion fails and the result is the
  displacement shifted right by 4 and masked to 12 bits, combined with the register
  encoding shifted left by 12 bits, with the fixup list unchanged; if it is not, the
  assertion fails.
\<close>

theorem getMemRIX16Encoding_imm:
  assumes "getOperand MI (unat (OpNo + 1)) = Inr (MOReg r)"
    and "getOperand MI (unat OpNo) = Inr (MOImm d)"
    and "getMachineOpValue T MI (unat (OpNo + 1)) (MOReg r) Fixups = Inr (RegEnc, F)"
  shows "(16 dvd sint d \<longrightarrow>
            getMemRIX16Encoding T MI OpNo Fixups =
              Inr ((ucast (drop_bit 4 d) AND 0xFFF) OR push_bit 12 (ucast RegEnc), Fixups))
       \<and> (\<not> 16 dvd sint d \<longrightarrow> getMemRIX16Encoding T MI OpNo Fixups = Inl AssertionFailed)"
proof -
  from assms(3) have F: "F = Fixups"
    by (rule getMachineOpValue_Fixups)
  show ?thesis
    using assms(1,2,3) unfolding F
    by (simp add: getMemRIX16Encoding_def isReg_def isImm_def getImm_def smod_16_iff_dvd
        getMachineOpValue_Imm memrix16_bits)
qed

theorem getMemRIX16Encoding_imm_witness:
  "getOperand exampleLoad (unat ((1 :: 32 word) + 1)) = Inr (MOReg 5)
   \<and> getOperand exampleLoad (unat (1 :: 32 word)) = Inr (MOImm 32)
   \<and> getMachineOpValue exampleTarget exampleLoad (unat ((1 :: 32 word) + 1)) (MOReg 5) [] = Inr (5, [])
   \<and> 16 dvd sint (32 :: 64 word)
   \<and> getMemRIX16Encoding exampleTarget exampleLoad 1 [] = Inr (0x5002, [])"
proof -
  have h: "getOperand exampleLoad (unat ((1 :: 32 word) + 1)) = Inr (MOReg 5)"
    by (simp add: getOperand_def exampleLoad_def)
  have k: "getOperand exampleLoad (unat (1 :: 32 word)) = Inr (MOImm 32)"
    by (simp add: getOperand_def exampleLoad_def)
  have g: "getMachineOpValue exampleTarget exampleLoad (unat ((1 :: 32 word) + 1)) (MOReg 5) [] = Inr (5, [])"
    by (simp add: getMachineOpValue_def getOpIdxForMO_def getNumOperands_def exampleLoad_def
        exampleTarget_def numeral_3_eq_3)
  have d: "16 dvd sint (32 :: 64 word)"
    by simp
  show ?thesis
    using h k g d getMemRIX16Encoding_imm [OF h k g]
    by simp
qed

text \<open>
  Claim C9, evaluated. \<open>getMemRI34PCRelEncoding\<close> tests the operand at \<open>OpNo + 1\<close>
  after shifting its 64-bit value left by 34, so the fatal error "Operand must be 0" is
  reported exactly when the low 30 bits of the operand are not all zero
  (\<open>getMemRI34PCRelEncoding_fatal_iff\<close>). For the operand \<open>2^30\<close>, which is not zero,
  no error is reported and the masked displacement is returned.
\<close>

theorem getMemRI34PCRelEncoding_accepts_nonzero:
  "getOperand examplePCRel (unat ((1 :: 32 word) + 1)) = Inr (MOImm (2 ^ 30))
   \<and> (2 ^ 30 :: 64 word) \<noteq> 0
   \<and> getMemRI34PCRelEncoding exampleTarget examplePCRel 1 [] = Inr (12, [])"
  by (simp add: getOperand_def examplePCRel_def isImm_def isReg_def getMachineOpValue_def
      getMemRI34PCRelEncoding_def)

subsection \<open>Writing the encoding\<close>

text \<open>
  Claim C2. When the generated predicate check and encoder succeed and the size of the
  instruction is 0, 4 or 8, \<open>encodeInstruction\<close> appends exactly that many bytes to the
  output stream. For size 4 they are the low 32 bits of the encoding in the byte order of
  the target. For size 8 the first four bytes are the upper 32 bits of the encoding and the
  last four the lower 32 bits, each in the byte order of the target, whichever it is.
\<close>

theorem encodeInstruction_bytes:
  assumes "verifyInstructionPredicates T MI = Inr ()"
    and "getBinaryCodeForInstr T MI Fixups = Inr (Bits, Fixups')"
    and "getInstSizeInBytes T MI \<in> {0, 4, 8}"
    and "E = (if IsLittleEndian T then little else big)"
  shows "\<exists>W. encodeInstruction T MI OS Fixups n = Inr (OS @ W, Fixups', n + 1)
            \<and> length W = getInstSizeInBytes T MI
            \<and> (getInstSizeInBytes T MI = 4 \<longrightarrow> endian_read32 W E = ucast Bits)
            \<and> (getInstSizeInBytes T MI = 8 \<longrightarrow>
                  endian_read32 (take 4 W) E = ucast (drop_bit 32 Bits)
                \<and> endian_read32 (drop 4 W) E = ucast Bits)"
proof -
  consider "getInstSizeInBytes T MI = 0" | "getInstSizeInBytes T MI = 4" | "getInstSizeInBytes T MI = 8"
    using assms(3) by auto
  then show ?thesis
  proof cases
    case 1
    then show ?thesis using assms(1,2) by (simp add: encodeInstruction_def)
  next
    case 2
    have "encodeInstruction T MI OS Fixups n = Inr (OS @ endian_write32 [] Bits E, Fixups', n + 1)"
      using 2 assms(1,2,4) endian_write32_append [of OS Bits E]
      by (simp add: encodeInstruction_def)
    moreover have "length (endian_write32 [] Bits E) = 4"
      by (simp add: length_endian_write32)
    moreover have "endian_read32 (endian_write32 [] Bits E) E = ucast Bits"
      by (rule endian_read32_write32)
    ultimately show ?thesis using 2 by simp
  next
    case 3
    let ?hi = "endian_write32 [] (drop_bit 32 Bits) E"
    let ?lo = "endian_write32 [] Bits E"
    have "endian_write32 (endian_write32 OS (drop_bit 32 Bits) E) Bits E = OS @ ?hi @ ?lo"
      using endian_write32_append [of "endian_write32 OS (drop_bit 32 Bits) E" Bits E]
        endian_write32_append [of OS "drop_bit 32 Bits" E]
      by simp
    then have "encodeInstruction T MI OS Fixups n = Inr (OS @ ?hi @ ?lo, Fixups', n + 1)"
      using 3 assms(1,2,4) by (simp add: encodeInstruction_def)
    moreover have "length ?hi = 4" "length ?lo = 4"
      by (simp_all add: length_endian_write32)
    moreover have "endian_read32 ?hi E = ucast (drop_bit 32 Bits)" "endian_read32 ?lo E = ucast Bits"
      by (rule endian_read32_write32)+
    ultimately show ?thesis using 3 by simp
  qed
qed

theorem encodeInstruction_bytes_witness:
  "verifyInstructionPredicates exampleTarget examplePCRel = Inr ()
   \<and> getBinaryCodeForInstr exampleTarget examplePCRel [] = Inr (0x0123456789ABCDEF, [])
   \<and> getInstSizeInBytes exampleTarget examplePCRel \<in> {0, 4, 8}
   \<and> (\<exists>W. encodeInstruction exampleTarget examplePCRel [] [] 0 = Inr (W, [], 1)
          \<and> length W = 8
          \<and> endian_read32 (take 4 W) little = 0x01234567
          \<and> endian_read32 (drop 4 W) little = 0x89ABCDEF)"
proof -
  have v: "verifyInstructionPredicates exampleTarget examplePCRel = Inr ()"
    by (simp add: exampleTarget_def)
  have b: "getBinaryCodeForInstr exampleTarget examplePCRel [] = Inr (0x0123456789ABCDEF, [])"
    by (simp add: exampleTarget_def)
  have z: "getInstSizeInBytes exampleTarget examplePCRel = 8"
    by (simp add: getInstSizeInBytes_def exampleTarget_def examplePCRel_def)
  have s: "getInstSizeInBytes exampleTarget examplePCRel \<in> {0, 4, 8}"
    by (simp add: z)
  have e: "little = (if IsLittleEndian exampleTarget then little else big)"
    by (simp add: exampleTarget_def)
  have hi: "(ucast (drop_bit 32 (0x0123456789ABCDEF :: 64 word)) :: 32 word) = 0x01234567"
    by simp
  have lo: "(0x0123456789ABCDEF :: 32 word) = 0x89ABCDEF"
    by simp
  show ?thesis
    using v b s encodeInstruction_bytes [OF v b s e, of "[]" 0]
    by (simp add: z hi lo)
qed

section \<open>Properties of the VE instruction printer\<close>

lemma read_unsigned_snoc: "read_unsigned (s @ [c]) = 10 * read_unsigned s + digit_value c"
  by (simp add: read_unsigned_def)

lemma digit_value_digit_char: "d < 10 \<Longrightarrow> digit_value (digit_char d) = d"
  by (simp add: digit_value_def digit_char_def)

lemma read_write_unsigned: "read_unsigned (write_unsigned n) = n"
proof (induction n rule: write_unsigned.induct)
  case (1 n)
  show ?case
  proof (cases "n < 10")
    case True
    then have "write_unsigned n = [digit_char n]"
      by (subst write_unsigned.simps) simp
    with True show ?thesis
      by (simp add: digit_value_digit_char read_unsigned_def)
  next
    case False
    then have "write_unsigned n = write_unsigned (n div 10) @ [digit_char (n mod 10)]"
      by (subst write_unsigned.simps) simp
    with False 1 show ?thesis
      by (simp add: read_unsigned_snoc digit_value_digit_char)
  qed
qed

lemma digit_char_not_minus:
  assumes "d < 10"
  shows "digit_char d \<noteq> CHR ''-''"
proof
  assume "digit_char d = CHR ''-''"
  then have "(of_char (digit_char d) :: nat) = of_char (CHR ''-'')"
    by simp
  with assms show False
    by (simp add: digit_char_def)
qed

lemma write_unsigned_hd: "write_unsigned n \<noteq> [] \<and> hd (write_unsigned n) \<noteq> CHR ''-''"
proof (induction n rule: write_unsigned.induct)
  case (1 n)
  show ?case
  proof (cases "n < 10")
    case True
    then have "write_unsigned n = [digit_char n]"
      by (subst write_unsigned.simps) simp
    with True show ?thesis
      by (simp add: digit_char_not_minus)
  next
    case False
    then have "write_unsigned n = write_unsigned (n div 10) @ [digit_char (n mod 10)]"
      by (subst write_unsigned.simps) simp
    with False 1 show ?thesis
      by simp
  qed
qed

lemma read_write_integer: "read_integer (write_integer N) = N"
proof (cases "0 \<le> N")
  case True
  obtain c cs where "write_unsigned (nat N) = c # cs" "c \<noteq> CHR ''-''"
    using write_unsigned_hd [of "nat N"] by (cases "write_unsigned (nat N)") auto
  with True show ?thesis
    using read_write_unsigned [of "nat N"]
    by (simp add: read_integer_def write_integer_def)
next
  case False
  then show ?thesis
    by (simp add: read_integer_def write_integer_def read_write_unsigned)
qed

lemma not_isUpper_toLower: "\<not> isUpper (toLower c)"
  by (auto simp: isUpper_def toLower_def)

lemma toLower_other: "\<not> isUpper c \<Longrightarrow> toLower c = c"
  by (auto simp: isUpper_def toLower_def)

lemma toLower_upper: "isUpper c \<Longrightarrow> of_char (toLower c) = (of_char c :: nat) + 32"
  by (auto simp: isUpper_def toLower_def)

lemma sint_ucast_mod:
  "sint (ucast (v :: 64 word) :: 32 word) mod 2 ^ 32 = sint v mod 2 ^ 32"
proof -
  have "sint (ucast v :: 32 word) mod 2 ^ 32 = uint (ucast v :: 32 word)"
    using uint_sint [of "ucast v :: 32 word"] by (simp add: take_bit_eq_mod)
  also have "\<dots> = take_bit 32 (uint v)"
    by (simp add: unsigned_ucast_eq)
  also have "\<dots> = take_bit 32 (take_bit 64 (sint v))"
    using uint_sint [of v] by simp
  also have "\<dots> = take_bit 32 (sint v)"
    by simp
  also have "\<dots> = sint v mod 2 ^ 32"
    by (simp add: take_bit_eq_mod)
  finally show ?thesis .
qed

text \<open>
  Claim C6. For an immediate operand of value \<open>v\<close>, \<open>printOperand\<close> appends the decimal
  text of the number \<open>n\<close> obtained by truncating \<open>v\<close> to \<open>int32_t\<close>: \<open>n\<close> lies in the
  signed 32-bit range and is congruent to \<open>v\<close> modulo \<open>2^32\<close>, and the text written reads
  back as \<open>n\<close>. \<open>printRegName\<close> appends a \<open>%\<close> and the register's name with every
  character passed through \<open>toLower\<close>, which leaves no upper-case letter.
\<close>

theorem printOperand_imm_printRegName:
  assumes "getOperand MI (nat (OpNum mod 2 ^ 32)) = Inr (MOImm v)"
    and "n = sint (ucast v :: 32 word)"
  shows "printOperand V MI OpNum OS = Inr (OS @ write_integer n)
       \<and> - (2 ^ 31) \<le> n \<and> n < 2 ^ 31 \<and> n mod 2 ^ 32 = sint v mod 2 ^ 32
       \<and> read_integer (write_integer n) = n
       \<and> printRegName V OS RegNo = OS @ [CHR ''%''] @ map toLower (getRegisterName V RegNo)
       \<and> (\<forall>c \<in> set (map toLower (getRegisterName V RegNo)). \<not> isUpper c)"
proof -
  have "printOperand V MI OpNum OS = Inr (OS @ write_integer n)"
    using assms by (simp add: printOperand_def isReg_def isImm_def getImm_def)
  moreover have "- (2 ^ 31) \<le> n" "n < 2 ^ 31"
    using sint_ge [of "ucast v :: 32 word"] sint_lt [of "ucast v :: 32 word"]
    by (simp_all add: assms(2))
  moreover have "n mod 2 ^ 32 = sint v mod 2 ^ 32"
    by (simp only: assms(2) sint_ucast_mod)
  ultimately show ?thesis
    by (simp add: read_write_integer printRegName_def lower_def not_isUpper_toLower)
qed

theorem printOperand_imm_printRegName_witness:
  "getOperand exampleWideImm (nat (0 mod 2 ^ 32)) = Inr (MOImm 0x1FFFFFFFF)
   \<and> (- 1 :: int) = sint (ucast (0x1FFFFFFFF :: 64 word) :: 32 word)
   \<and> printOperand exampleVE exampleWideImm 0 ''or '' = Inr ''or -1''
   \<and> printRegName exampleVE ''or '' 3 = ''or %sx3''"
proof -
  have h: "getOperand exampleWideImm (nat (0 mod 2 ^ 32)) = Inr (MOImm 0x1FFFFFFFF)"
    by (simp add: getOperand_def exampleWideImm_def)
  have n: "(- 1 :: int) = sint (ucast (0x1FFFFFFFF :: 64 word) :: 32 word)"
    by simp
  have w: "write_integer (- 1) = ''-1''"
    by code_simp
  have l: "map toLower (getRegisterName exampleVE 3) = ''sx3''"
    by code_simp
  show ?thesis
    using h n printOperand_imm_printRegName [OF h n, of exampleVE "''or ''" 3]
    by (simp add: w l)
qed

section \<open>Properties of the loop-to-CFG lowering\<close>

subsection \<open>Auxiliary facts about the rewriter\<close>

lemma opIndex_append:
  "opId x = i \<Longrightarrow> i \<notin> opId ` set xs \<Longrightarrow> opIndex i (xs @ x # ys) = Some (length xs)"
  by (induction xs) auto

lemma positionOf_begin:
  "positionOf (case ops of [] \<Rightarrow> AtEnd | x # _ \<Rightarrow> Before (opId x)) ops = Some 0"
  by (cases ops) (simp_all add: positionOf_def)

lemma positionOf_AtEnd: "positionOf AtEnd ops = Some (length ops)"
  by (simp add: positionOf_def)

lemma positionOf_Before:
  "opId x = i \<Longrightarrow> i \<notin> opId ` set xs \<Longrightarrow> positionOf (Before i) (xs @ x # ys) = Some (length xs)"
  by (simp add: positionOf_def opIndex_append)

lemma insertAfter_append:
  "b \<notin> set xs \<Longrightarrow> insertAfter b n (xs @ b # ys) = xs @ b # n # ys"
  by (induction xs) auto

lemma insertBefore_append:
  "b \<notin> set xs \<Longrightarrow> insertBefore b ns (xs @ b # ys) = xs @ ns @ b # ys"
  by (induction xs) auto

lemma filter_opId_replaceUses:
  "i \<notin> opId ` set xs \<Longrightarrow>
     filter (\<lambda>x. opId x \<noteq> i) (map (replaceUsesInOp m) xs) = map (replaceUsesInOp m) xs"
  by (induction xs) (auto simp: replaceUsesInOp_def)

lemma insertBefore_append2:
  "b \<notin> set xs \<Longrightarrow> b \<noteq> p \<Longrightarrow> insertBefore b ns (xs @ p # b # ys) = xs @ p # ns @ b # ys"
  by (induction xs) auto

lemma length_argumentValues: "length (argumentValues b tys) = length tys"
  by (simp add: argumentValues_def)

lemma filter_opId_notin:
  "i \<notin> opId ` set xs \<Longrightarrow> filter (\<lambda>x. opId x \<noteq> i) xs = xs"
  by (induction xs) auto

lemmas rewriter_defs =
  typeOf_def
  bindM_def returnM_def liftE_def getInsertionBlock_def getInsertionPoint_def splitBlock_def
  ForOp_region_def ForOp_step_def ForOp_lowerBound_def ForOp_upperBound_def
  ForOp_getIterOperands_def getOpRegion_def getOpOperand_def
  region_front_def region_back_def blockBegin_def getBlock_def inlineRegionBefore_def
  getArgument_def getArguments_def getTerminator_def setInsertionPointToEnd_def
  create_AddIOp_def create_BranchOp_def create_CmpIOp_def create_CondBranchOp_def
  freshOpId_def insertOp_def eraseOp_def replaceOp_def getResult_def


lemma replaceValue_notin: "v \<notin> fst ` set m \<Longrightarrow> replaceValue m v = v"
  by (simp add: replaceValue_def map_of_eq_None_iff [THEN iffD2])

lemma replaceValue_BlockArgument:
  "replaceValue (zip (getResults operation) vs) (BlockArgument b i t) = BlockArgument b i t"
  by (rule replaceValue_notin) (auto simp: getResults_def getResult_def dest!: set_zip_leftD)

lemma replaceValue_other_op:
  "j \<noteq> opId operation \<Longrightarrow> replaceValue (zip (getResults operation) vs) (OpResult j i t) = OpResult j i t"
  by (rule replaceValue_notin) (auto simp: getResults_def getResult_def dest!: set_zip_leftD)

lemma replaceValue_not_result:
  "v \<notin> set (getResults operation) \<Longrightarrow> replaceValue (zip (getResults operation) vs) v = v"
  by (rule replaceValue_notin) (auto dest!: set_zip_leftD)

lemma map_replaceValue_not_result:
  "\<forall>v \<in> set xs. v \<notin> set (getResults operation) \<Longrightarrow>
     map (replaceValue (zip (getResults operation) vs)) xs = xs"
  by (induction xs) (simp_all add: replaceValue_not_result)

lemmas if_rewriter_defs =
  IfOp_condition_def IfOp_thenRegion_def IfOp_elseRegion_def regionEmpty_def createBlock_def
  branchFromRegion_def getNumResults_def

lemma filter_opId_notin2:
  "i \<notin> opId ` set xs \<Longrightarrow> j \<notin> opId ` set xs \<Longrightarrow>
     filter (\<lambda>x. opId x \<noteq> i \<and> opId x \<noteq> j) xs = xs"
  by (induction xs) auto

lemma replaceValue_Nil: "replaceValue [] v = v"
  by (simp add: replaceValue_def)

lemma map_replaceValue_Nil: "map (replaceValue []) vs = vs"
  by (induction vs) (simp_all add: replaceValue_Nil)

lemma getResults_Nil: "opResultTypes operation = [] \<Longrightarrow> getResults operation = []"
  by (simp add: getResults_def getNumResults_def)

lemma argumentValues_Nil: "argumentValues b [] = []"
  by (simp add: argumentValues_def)

lemma insertBefore_append3:
  "b \<notin> set xs \<Longrightarrow> b \<notin> set zs \<Longrightarrow> b \<noteq> p \<Longrightarrow>
     insertBefore b ns (xs @ p # zs @ b # ys) = xs @ p # zs @ ns @ b # ys"
  by (induction xs) (auto simp: insertBefore_append)

lemma fresh_notin: "\<forall>b \<in> set xs. b < (k :: nat) \<Longrightarrow> k \<le> j \<Longrightarrow> j \<notin> set xs"
  by auto

lemma insertBefore_append4:
  "b \<notin> set xs \<Longrightarrow> b \<notin> set zs \<Longrightarrow> b \<noteq> p \<Longrightarrow> b \<noteq> t \<Longrightarrow>
     insertBefore b ns (xs @ p # t # zs @ b # ys) = xs @ p # t # zs @ ns @ b # ys"
  by (induction xs) (auto simp: insertBefore_append)

subsection \<open>Running the two patterns\<close>

text \<open>
  The two patterns are run on an arbitrary state of the following shape. The operation
  stands in block \<open>P\<close> of region \<open>R\<close>, between the operations \<open>before\<close> and
  \<open>after\<close>, and the rewriter is positioned at it. Its regions are not \<open>R\<close>, the blocks
  of \<open>R\<close> and of its regions are pairwise distinct and older than the block counter, and
  the identifiers of the operations involved are distinct and older than the operation
  counter. No operand of the operation or of the terminators of its regions is a result of
  the operation itself. Then the pattern succeeds, and every block of the resulting state
  is known: \<open>E\<close> is the block split off after the operation, and \<open>m\<close> maps the results
  of the operation to the values that replace them.
\<close>

lemma ForLowering_exec:
  fixes st :: IR
  assumes ip: "insertionBlock st = P" "insertionPoint st = Before (opId forOp)"
    and P: "blocks st P = Some \<lparr>blockArguments = Pargs, blockOperations = before @ [forOp] @ after,
                                blockParent = R\<rparr>"
    and R: "regions st R = preB @ [P] @ postB"
    and forOp: "opOperands forOp = lb # ub # step # iters" "opRegions forOp = [Rb]"
               "getNumResults forOp = length iterTs"
    and Rb: "regions st Rb = C # rest" "R \<noteq> Rb"
    and C: "blocks st C = Some \<lparr>blockArguments = ivT # iterTs, blockOperations = cops, blockParent = Rb\<rparr>"
    and L: "blocks st (last (C # rest)) =
              Some \<lparr>blockArguments = largs, blockOperations = lops @ [terminator], blockParent = Rb\<rparr>"
    and dist: "distinct (preB @ [P] @ postB @ C # rest)"
    and fresh: "\<forall>b \<in> set (preB @ [P] @ postB @ C # rest). b < nextBlock st"
    and ids: "opId forOp \<notin> opId ` set (before @ after @ cops @ lops @ [terminator])"
             "opId terminator \<notin> opId ` set (before @ after @ lops)"
             "rest \<noteq> [] \<longrightarrow> opId terminator \<notin> opId ` set cops"
             "opId forOp < nextOp st" "opId terminator < nextOp st"
    and nonnull: "lb \<noteq> NullValue" "ub \<noteq> NullValue"
    and ssa: "\<forall>v \<in> set (opOperands forOp) \<union> set (opOperands terminator). v \<notin> set (getResults forOp)"
    and names: "E = nextBlock st" "F = nextBlock st + 1" "n = nextOp st" "loc = opLoc forOp"
               "iv = BlockArgument C 0 ivT"
               "lastBody = (if rest = [] then F else last rest)"
               "m = zip (getResults forOp) (drop 1 (argumentValues C (ivT # iterTs)))"
  shows "\<exists>st'. ForLowering_matchAndRewrite forOp st = Inr (success, st')
       \<and> regions st' R = preB @ [P, C, F] @ rest @ [E] @ postB
       \<and> blocks st' P =
           Some \<lparr>blockArguments = Pargs,
                 blockOperations = map (replaceUsesInOp m) before @
                   [\<lparr>opId = n + 2, opName = BranchOp, opLoc = loc, opOperands = [],
                     opResultTypes = [], opSuccessors = [(C, lb # iters)], opRegions = []\<rparr>],
                 blockParent = R\<rparr>
       \<and> blocks st' C =
           Some \<lparr>blockArguments = ivT # iterTs,
                 blockOperations =
                   [\<lparr>opId = n + 3, opName = CmpIOp slt, opLoc = loc, opOperands = [iv, ub],
                     opResultTypes = [IntegerType 1], opSuccessors = [], opRegions = []\<rparr>,
                    \<lparr>opId = n + 4, opName = CondBranchOp, opLoc = loc,
                     opOperands = [OpResult (n + 3) 0 (IntegerType 1)], opResultTypes = [],
                     opSuccessors = [(F, []), (E, [])], opRegions = []\<rparr>],
                 blockParent = R\<rparr>
       \<and> blocks st' lastBody =
           Some \<lparr>blockArguments = (if rest = [] then [] else largs),
                 blockOperations = map (replaceUsesInOp m) lops @
                   [\<lparr>opId = n, opName = AddIOp, opLoc = loc, opOperands = [iv, step],
                     opResultTypes = [ivT], opSuccessors = [], opRegions = []\<rparr>,
                    \<lparr>opId = n + 1, opName = BranchOp, opLoc = loc, opOperands = [],
                     opResultTypes = [],
                     opSuccessors = [(C, OpResult n 0 ivT # opOperands terminator)], opRegions = []\<rparr>],
                 blockParent = R\<rparr>
       \<and> (rest \<noteq> [] \<longrightarrow>
            blocks st' F = Some \<lparr>blockArguments = [], blockOperations = map (replaceUsesInOp m) cops,
                                  blockParent = R\<rparr>)
       \<and> blocks st' E = Some \<lparr>blockArguments = [], blockOperations = map (replaceUsesInOp m) after,
                                blockParent = R\<rparr>
       \<and> (\<forall>b. b \<notin> {P, C, F, E, lastBody} \<longrightarrow>
              blocks st' b =
                map_option (eraseFromBlock (opId forOp))
                  (map_option (replaceUsesInBlock m)
                     (map_option (eraseFromBlock (opId terminator))
                        (if b \<in> set rest
                         then map_option (blockParent_update (\<lambda>_. R)) (blocks st b)
                         else blocks st b))))"
proof (cases "rest = []")
  case True
  have E: "E \<notin> set preB" "E \<noteq> P" "E \<noteq> C" "F \<noteq> P" "F \<noteq> C" "E \<noteq> F" "P \<noteq> C" "P \<notin> set preB"
    using fresh dist names by auto
  have c: "cops = lops @ [terminator]" "largs = ivT # iterTs"
    using C L True by simp_all
  have o: "opId forOp \<noteq> n" "opId forOp \<noteq> Suc n" "opId forOp \<noteq> Suc (Suc n)" "opId forOp \<noteq> n + 3" "opId forOp \<noteq> n + 4"
         "opId terminator \<noteq> n" "opId terminator \<noteq> Suc n" "opId terminator \<noteq> Suc (Suc n)" "opId terminator \<noteq> n + 3" "opId terminator \<noteq> n + 4"
    using ids names by auto
  have i: "opId forOp \<notin> opId ` set before" "opId forOp \<notin> opId ` set after"
      "opId forOp \<notin> opId ` set lops" "opId forOp \<noteq> opId terminator"
      "opId terminator \<notin> opId ` set before" "opId terminator \<notin> opId ` set after"
      "opId terminator \<notin> opId ` set lops"
    using ids by auto
  have u: "lb \<notin> set (getResults forOp)" "ub \<notin> set (getResults forOp)"
      "step \<notin> set (getResults forOp)" "\<forall>v \<in> set iters. v \<notin> set (getResults forOp)"
      "\<forall>v \<in> set (opOperands terminator). v \<notin> set (getResults forOp)"
    using ssa forOp(1) by auto
  show ?thesis
    using True ip P R forOp Rb C nonnull E o i u names
    unfolding c
    apply (simp add: ForLowering_matchAndRewrite_def rewriter_defs positionOf_Before positionOf_begin
        positionOf_AtEnd Let_def insertAfter_append insertBefore_append insertBefore_append2
        eraseFromBlock_def replaceUsesInBlock_def replaceUsesInOp_def length_argumentValues eval_nat_numeral)

        apply (simp add: filter_opId_notin filter_opId_replaceUses replaceValue_BlockArgument replaceValue_other_op replaceValue_not_result map_replaceValue_not_result eval_nat_numeral)
    done
next
  case False
  then obtain mid Lb where rest: "rest = mid @ [Lb]"
    by (metis append_butlast_last_id)
  have E: "E \<notin> set preB" "E \<noteq> P" "E \<noteq> C" "F \<noteq> P" "F \<noteq> C" "E \<noteq> F" "P \<noteq> C" "P \<notin> set preB"
      "Lb \<noteq> C" "Lb \<noteq> P" "Lb \<noteq> E" "Lb \<noteq> F" "P \<notin> set mid" "E \<notin> set mid" "C \<notin> set mid"
    using fresh dist names rest by auto
  have Fmid: "F \<notin> set mid"
  proof
    assume "F \<in> set mid"
    then have "F < nextBlock st" using fresh rest by simp
    then show False using names by simp
  qed
  have o: "opId forOp \<noteq> n" "opId forOp \<noteq> Suc n" "opId forOp \<noteq> Suc (Suc n)" "opId forOp \<noteq> n + 3" "opId forOp \<noteq> n + 4"
         "opId terminator \<noteq> n" "opId terminator \<noteq> Suc n" "opId terminator \<noteq> Suc (Suc n)" "opId terminator \<noteq> n + 3" "opId terminator \<noteq> n + 4"
    using ids names by auto
  have i: "opId forOp \<notin> opId ` set before" "opId forOp \<notin> opId ` set after"
      "opId forOp \<notin> opId ` set lops" "opId forOp \<noteq> opId terminator"
      "opId forOp \<notin> opId ` set cops"
      "opId terminator \<notin> opId ` set before" "opId terminator \<notin> opId ` set after"
      "opId terminator \<notin> opId ` set lops" "opId terminator \<notin> opId ` set cops"
    using ids False by auto
  have u: "lb \<notin> set (getResults forOp)" "ub \<notin> set (getResults forOp)"
      "step \<notin> set (getResults forOp)" "\<forall>v \<in> set iters. v \<notin> set (getResults forOp)"
      "\<forall>v \<in> set (opOperands terminator). v \<notin> set (getResults forOp)"
    using ssa forOp(1) by auto
  have L': "blocks st Lb = Some \<lparr>blockArguments = largs, blockOperations = lops @ [terminator], blockParent = Rb\<rparr>"
    using L rest by simp
  show ?thesis
    using ip P R forOp Rb C L' nonnull E Fmid o i u names
    unfolding rest
    apply (simp add: ForLowering_matchAndRewrite_def rewriter_defs positionOf_Before positionOf_begin
        positionOf_AtEnd Let_def insertAfter_append insertBefore_append insertBefore_append2
        eraseFromBlock_def replaceUsesInBlock_def replaceUsesInOp_def length_argumentValues eval_nat_numeral)

        apply (simp add: filter_opId_notin filter_opId_replaceUses replaceValue_BlockArgument replaceValue_other_op replaceValue_not_result map_replaceValue_not_result eval_nat_numeral)
    done
qed

lemma IfLowering_exec:
  fixes st :: IR
  assumes ip: "insertionBlock st = P" "insertionPoint st = Before (opId ifOp)"
    and P: "blocks st P = Some \<lparr>blockArguments = Pargs, blockOperations = before @ [ifOp] @ after,
                                blockParent = R\<rparr>"
    and R: "regions st R = preB @ [P] @ postB"
    and ifOp: "opOperands ifOp = [cond]" "opRegions ifOp = [Rt, Re]" "opResultTypes ifOp = resTs"
    and Rt: "regions st Rt = T # trest" "R \<noteq> Rt" "R \<noteq> Re" "Rt \<noteq> Re"
    and Lt: "blocks st (last (T # trest)) =
              Some \<lparr>blockArguments = targs, blockOperations = tops @ [tterm], blockParent = Rt\<rparr>"
    and Re: "regions st Re = eblocks" "eblocks = [] \<longrightarrow> resTs = []"
    and Le: "eblocks \<noteq> [] \<longrightarrow> blocks st (last eblocks) =
              Some \<lparr>blockArguments = eargs, blockOperations = eops @ [eterm], blockParent = Re\<rparr>"
    and dist: "distinct (preB @ [P] @ postB @ (T # trest) @ eblocks)"
    and fresh: "\<forall>b \<in> set (preB @ [P] @ postB @ (T # trest) @ eblocks). b < nextBlock st"
    and ids: "opId ifOp \<notin> opId ` set (before @ after @ tops @ [tterm])"
             "opId tterm \<notin> opId ` set (before @ after @ tops)"
             "eblocks \<noteq> [] \<longrightarrow> opId ifOp \<notin> opId ` set (eops @ [eterm])
                \<and> opId tterm \<notin> opId ` set (eops @ [eterm])
                \<and> opId eterm \<notin> opId ` set (before @ after @ tops @ eops) \<and> opId eterm < nextOp st"
             "opId ifOp < nextOp st" "opId tterm < nextOp st"
    and ssa: "\<forall>v \<in> {cond} \<union> set (opOperands tterm). v \<notin> set (getResults ifOp)"
             "eblocks \<noteq> [] \<longrightarrow> (\<forall>v \<in> set (opOperands eterm). v \<notin> set (getResults ifOp))"
    and names: "E = nextBlock st" "D = nextBlock st + 1" "loc = opLoc ifOp"
               "continueBlock = (if resTs = [] then E else D)"
               "n = (if resTs = [] then nextOp st else nextOp st + 1)"
               "m = zip (getResults ifOp) (argumentValues continueBlock resTs)"
  shows "\<exists>st'. IfLowering_matchAndRewrite ifOp st = Inr (success, st')
       \<and> regions st' R = preB @ [P] @ (T # trest) @ eblocks @ (if resTs = [] then [] else [D]) @ [E] @ postB
       \<and> blocks st' P =
           Some \<lparr>blockArguments = Pargs,
                 blockOperations = map (replaceUsesInOp m) before @
                   [\<lparr>opId = (if eblocks = [] then n + 1 else n + 2), opName = CondBranchOp, opLoc = loc,
                     opOperands = [cond], opResultTypes = [],
                     opSuccessors = [(T, []), (if eblocks = [] then continueBlock else hd eblocks, [])],
                     opRegions = []\<rparr>],
                 blockParent = R\<rparr>
       \<and> (resTs \<noteq> [] \<longrightarrow>
            blocks st' D =
              Some \<lparr>blockArguments = resTs,
                    blockOperations =
                      [\<lparr>opId = nextOp st, opName = BranchOp, opLoc = loc, opOperands = [],
                        opResultTypes = [], opSuccessors = [(E, [])], opRegions = []\<rparr>],
                    blockParent = R\<rparr>)
       \<and> blocks st' (last (T # trest)) =
           Some \<lparr>blockArguments = targs,
                 blockOperations = map (replaceUsesInOp m) tops @
                   [\<lparr>opId = n, opName = BranchOp, opLoc = loc, opOperands = [], opResultTypes = [],
                     opSuccessors = [(continueBlock, opOperands tterm)], opRegions = []\<rparr>],
                 blockParent = R\<rparr>
       \<and> (eblocks \<noteq> [] \<longrightarrow>
            blocks st' (last eblocks) =
              Some \<lparr>blockArguments = eargs,
                    blockOperations = map (replaceUsesInOp m) eops @
                      [\<lparr>opId = n + 1, opName = BranchOp, opLoc = loc, opOperands = [],
                        opResultTypes = [], opSuccessors = [(continueBlock, opOperands eterm)],
                        opRegions = []\<rparr>],
                    blockParent = R\<rparr>)
       \<and> blocks st' E = Some \<lparr>blockArguments = [], blockOperations = map (replaceUsesInOp m) after,
                                blockParent = R\<rparr>
       \<and> (\<forall>b. b \<notin> {P, E, D, last (T # trest)} \<and> (eblocks \<noteq> [] \<longrightarrow> b \<noteq> last eblocks) \<longrightarrow>
              (blocks st b = None \<longrightarrow> blocks st' b = None) \<and>
              (\<forall>B. blocks st b = Some B \<longrightarrow>
                 (\<exists>B'. blocks st' b = Some B' \<and>
                    blockOperations B' =
                      filter (\<lambda>x. opId x \<noteq> opId ifOp) (map (replaceUsesInOp m)
                        ((if eblocks = [] then id else filter (\<lambda>x. opId x \<noteq> opId eterm))
                           (filter (\<lambda>x. opId x \<noteq> opId tterm) (blockOperations B)))))))"
proof -
  define Lt where "Lt = last (T # trest)"
  have LtT: "Lt \<in> set (T # trest)"
    unfolding Lt_def by (rule last_in_set) simp
  have Ltb: "blocks st Lt = Some \<lparr>blockArguments = targs, blockOperations = tops @ [tterm], blockParent = Rt\<rparr>"
    using Lt by (simp add: Lt_def)
  have bl: "E \<notin> set preB" "E \<noteq> P" "D \<notin> set preB" "D \<noteq> P" "E \<noteq> D" "P \<notin> set preB"
      "E \<notin> set (T # trest)" "D \<notin> set (T # trest)" "P \<notin> set (T # trest)"
      "E \<notin> set eblocks" "D \<notin> set eblocks" "P \<notin> set eblocks"
    using fresh_notin [OF fresh, of E] fresh_notin [OF fresh, of D] dist names by auto
  have bl2: "Lt \<noteq> P" "Lt \<noteq> E" "Lt \<noteq> D" "Lt \<notin> set eblocks"
    using LtT bl dist by auto
  have o: "opId ifOp \<noteq> nextOp st" "opId ifOp \<noteq> Suc (nextOp st)" "opId ifOp \<noteq> Suc (Suc (nextOp st))"
      "opId ifOp \<noteq> Suc (Suc (Suc (nextOp st)))"
      "opId tterm \<noteq> nextOp st" "opId tterm \<noteq> Suc (nextOp st)" "opId tterm \<noteq> Suc (Suc (nextOp st))"
      "opId tterm \<noteq> Suc (Suc (Suc (nextOp st)))"
    using ids by auto
  have i: "opId ifOp \<notin> opId ` set before" "opId ifOp \<notin> opId ` set after"
      "opId ifOp \<notin> opId ` set tops" "opId ifOp \<noteq> opId tterm"
      "opId tterm \<notin> opId ` set before" "opId tterm \<notin> opId ` set after"
      "opId tterm \<notin> opId ` set tops"
    using ids by auto
  have u: "cond \<notin> set (getResults ifOp)" "\<forall>v \<in> set (opOperands tterm). v \<notin> set (getResults ifOp)"
    using ssa by auto
  show ?thesis
  proof (cases "eblocks = []")
    case True
    then have r: "resTs = []" using Re by simp
    show ?thesis
      using True r ip P R ifOp Rt Ltb LtT Re(1) bl bl2 o i u names
      apply (simp add: IfLowering_matchAndRewrite_def rewriter_defs if_rewriter_defs
          Lt_def [symmetric] replaceValue_Nil map_replaceValue_Nil getResults_Nil argumentValues_Nil
          positionOf_Before positionOf_begin
          positionOf_AtEnd Let_def insertAfter_append insertBefore_append insertBefore_append2
          eraseFromBlock_def replaceUsesInBlock_def replaceUsesInOp_def length_argumentValues eval_nat_numeral
          del: last.simps)

        apply (simp add: filter_opId_notin filter_opId_notin2 filter_opId_replaceUses replaceValue_BlockArgument replaceValue_other_op replaceValue_not_result map_replaceValue_not_result replaceValue_Nil map_replaceValue_Nil eval_nat_numeral)
      done
  next
    case False
    define Le where "Le = last eblocks"
    obtain Ee erest where eb: "eblocks = Ee # erest"
      using False by (cases eblocks) auto
    have LeE: "Le \<in> set (Ee # erest)"
      unfolding Le_def eb by (rule last_in_set) simp
    have Leb: "blocks st Le = Some \<lparr>blockArguments = eargs, blockOperations = eops @ [eterm], blockParent = Re\<rparr>"
      using Le False by (simp add: Le_def)
    have bl3: "Le \<noteq> P" "Le \<noteq> E" "Le \<noteq> D" "Le \<notin> set (T # trest)" "Le \<noteq> Lt"
      using LeE LtT bl dist eb by auto
    have bl4: "E \<notin> set (Ee # erest)" "D \<notin> set (Ee # erest)" "P \<notin> set (Ee # erest)"
        "Lt \<notin> set (Ee # erest)"
      using bl bl2 eb by auto
    have o2: "opId eterm \<noteq> nextOp st" "opId eterm \<noteq> Suc (nextOp st)" "opId eterm \<noteq> Suc (Suc (nextOp st))"
        "opId eterm \<noteq> Suc (Suc (Suc (nextOp st)))"
      using ids False by auto
    have i2: "opId ifOp \<notin> opId ` set eops" "opId ifOp \<noteq> opId eterm"
        "opId tterm \<notin> opId ` set eops" "opId tterm \<noteq> opId eterm"
        "opId eterm \<notin> opId ` set before" "opId eterm \<notin> opId ` set after"
        "opId eterm \<notin> opId ` set tops" "opId eterm \<notin> opId ` set eops"
      using ids False by auto
    have u2: "\<forall>v \<in> set (opOperands eterm). v \<notin> set (getResults ifOp)"
      using ssa False by auto
    show ?thesis
    proof (cases "resTs = []")
      case True
      show ?thesis
        using True ip P R ifOp Rt Ltb LtT Leb LeE Re(1) bl bl2 bl3 bl4 o o2 i i2 u u2 names
        unfolding eb
        apply (simp add: IfLowering_matchAndRewrite_def rewriter_defs if_rewriter_defs
            Lt_def [symmetric] Le_def [unfolded eb, symmetric]
            replaceValue_Nil map_replaceValue_Nil getResults_Nil argumentValues_Nil
            positionOf_Before positionOf_begin
            positionOf_AtEnd Let_def insertAfter_append insertBefore_append insertBefore_append2
            insertBefore_append4
            eraseFromBlock_def replaceUsesInBlock_def replaceUsesInOp_def length_argumentValues eval_nat_numeral
            del: last.simps)

        apply (simp add: filter_opId_notin filter_opId_notin2 filter_opId_replaceUses replaceValue_BlockArgument replaceValue_other_op replaceValue_not_result map_replaceValue_not_result replaceValue_Nil map_replaceValue_Nil eval_nat_numeral)
        done
    next
      case res: False
      show ?thesis
        using res ip P R ifOp Rt Ltb LtT Leb LeE Re(1) bl bl2 bl3 bl4 o o2 i i2 u u2 names
        unfolding eb
        apply (simp add: IfLowering_matchAndRewrite_def rewriter_defs if_rewriter_defs
            Lt_def [symmetric] Le_def [unfolded eb, symmetric]
            positionOf_Before positionOf_begin
            positionOf_AtEnd Let_def insertAfter_append insertBefore_append insertBefore_append2
            insertBefore_append4
            eraseFromBlock_def replaceUsesInBlock_def replaceUsesInOp_def length_argumentValues eval_nat_numeral
            del: last.simps)

        apply (simp add: filter_opId_notin filter_opId_notin2 filter_opId_replaceUses replaceValue_BlockArgument replaceValue_other_op replaceValue_not_result map_replaceValue_not_result eval_nat_numeral)
        done
    qed
  qed
qed

subsection \<open>Control-flow edges after the rewrite\<close>

text \<open>
  Replacing values does not change the successors of an operation, and erasing operations
  removes edges only. So a block that the rewrite did not touch keeps its edges, or loses
  some.
\<close>

lemma opsSuccessors_append: "opsSuccessors (xs @ ys) = opsSuccessors xs @ opsSuccessors ys"
  by (simp add: opsSuccessors_def)

lemma opsSuccessors_replaceUses: "opsSuccessors (map (replaceUsesInOp m) xs) = opsSuccessors xs"
  by (induction xs) (auto simp: opsSuccessors_def replaceUsesInOp_def split_def comp_def)

lemma opsSuccessors_filter: "set (opsSuccessors (filter p xs)) \<subseteq> set (opsSuccessors xs)"
  by (induction xs) (auto simp: opsSuccessors_def)

lemma opsSuccessors_no_successors:
  "\<forall>x \<in> set xs. opSuccessors x = [] \<Longrightarrow> opsSuccessors xs = []"
  by (induction xs) (auto simp: opsSuccessors_def)

lemma blockSuccessors_Some:
  "blocks st b = Some B \<Longrightarrow> blockSuccessors st b = opsSuccessors (blockOperations B)"
  by (simp add: blockSuccessors_def)

lemma blockSuccessors_erased:
  assumes "blocks st' b =
             map_option (eraseFromBlock i) (map_option (replaceUsesInBlock m)
               (map_option (eraseFromBlock j)
                  (if c then map_option (blockParent_update f) (blocks st b) else blocks st b)))"
  shows "set (blockSuccessors st' b) \<subseteq> set (blockSuccessors st b)"
proof (cases "blocks st b")
  case None
  with assms show ?thesis by (simp add: blockSuccessors_def)
next
  case (Some B)
  have "set (opsSuccessors (filter (\<lambda>x. opId x \<noteq> i) (map (replaceUsesInOp m)
              (filter (\<lambda>x. opId x \<noteq> j) (blockOperations B))))) \<subseteq> set (opsSuccessors (blockOperations B))"
    using opsSuccessors_filter [of "\<lambda>x. opId x \<noteq> i" "map (replaceUsesInOp m) (filter (\<lambda>x. opId x \<noteq> j) (blockOperations B))"]
      opsSuccessors_filter [of "\<lambda>x. opId x \<noteq> j" "blockOperations B"]
    by (auto simp: opsSuccessors_replaceUses)
  with assms Some show ?thesis
    by (cases c) (simp_all add: blockSuccessors_def eraseFromBlock_def replaceUsesInBlock_def)
qed

lemma blockSuccessors_filtered:
  assumes "blocks st b = Some B" and "blocks st' b = Some B'"
    and "blockOperations B' =
           filter p (map (replaceUsesInOp m) (g (filter q (blockOperations B))))"
    and "g = id \<or> g = filter r"
  shows "set (blockSuccessors st' b) \<subseteq> set (blockSuccessors st b)"
proof -
  have "set (opsSuccessors (g (filter q (blockOperations B)))) \<subseteq> set (opsSuccessors (blockOperations B))"
    using assms(4) opsSuccessors_filter [of q "blockOperations B"]
      opsSuccessors_filter [of r "filter q (blockOperations B)"]
    by auto
  then have "set (opsSuccessors (blockOperations B')) \<subseteq> set (opsSuccessors (blockOperations B))"
    using opsSuccessors_filter [of p "map (replaceUsesInOp m) (g (filter q (blockOperations B)))"]
    by (auto simp: assms(3) opsSuccessors_replaceUses)
  then show ?thesis
    using assms(1,2) by (simp add: blockSuccessors_def)
qed

lemma ForLowering_sese:
  fixes st :: IR
  assumes ip: "insertionBlock st = P" "insertionPoint st = Before (opId forOp)"
    and P: "blocks st P = Some \<lparr>blockArguments = Pargs, blockOperations = before @ [forOp] @ after,
                                blockParent = R\<rparr>"
    and R: "regions st R = preB @ [P] @ postB"
    and forOp: "opOperands forOp = lb # ub # step # iters" "opRegions forOp = [Rb]"
               "getNumResults forOp = length iterTs"
    and Rb: "regions st Rb = C # rest" "R \<noteq> Rb"
    and C: "blocks st C = Some \<lparr>blockArguments = ivT # iterTs, blockOperations = cops, blockParent = Rb\<rparr>"
    and L: "blocks st (last (C # rest)) =
              Some \<lparr>blockArguments = largs, blockOperations = lops @ [terminator], blockParent = Rb\<rparr>"
    and dist: "distinct (preB @ [P] @ postB @ C # rest)"
    and fresh: "\<forall>b \<in> set (preB @ [P] @ postB @ C # rest). b < nextBlock st"
    and ids: "opId forOp \<notin> opId ` set (before @ after @ cops @ lops @ [terminator])"
             "opId terminator \<notin> opId ` set (before @ after @ lops)"
             "rest \<noteq> [] \<longrightarrow> opId terminator \<notin> opId ` set cops"
             "opId forOp < nextOp st" "opId terminator < nextOp st"
    and nonnull: "lb \<noteq> NullValue" "ub \<noteq> NullValue"
    and ssa: "\<forall>v \<in> set (opOperands forOp) \<union> set (opOperands terminator). v \<notin> set (getResults forOp)"
    and cfg: "\<forall>x \<in> set before. opSuccessors x = []"
             "\<forall>b \<in> set (preB @ postB). set (blockSuccessors st b) \<subseteq> set (preB @ [P] @ postB)"
             "\<forall>b \<in> set (C # rest). set (blockSuccessors st b) \<subseteq> set (C # rest)"
    and names: "E = nextBlock st" "F = nextBlock st + 1"
  shows "\<exists>st'. ForLowering_matchAndRewrite forOp st = Inr (success, st')
       \<and> regions st' R = preB @ [P] @ (C # F # rest) @ [E] @ postB
       \<and> singleEntrySingleExit st' (preB @ postB) P (C # F # rest) E
       \<and> (preB = [] \<longrightarrow> hd (regions st' R) = P)
       \<and> (postB = [] \<longrightarrow> last (regions st' R) = E)"
proof -
  define lastBody where "lastBody = (if rest = [] then F else last rest)"
  define m where "m = zip (getResults forOp) (drop 1 (argumentValues C (ivT # iterTs)))"
  note ex = ForLowering_exec [OF ip P R forOp Rb C L dist fresh ids nonnull ssa names refl refl refl
      lastBody_def m_def]
  show ?thesis
    using ex
    apply (elim exE conjE)
    subgoal premises h for st'
    proof -
      note run = h(1) and reg = h(2) and kP = h(3) and kC = h(4) and kL = h(5) and kF = h(6)
        and kO = h(8)
      have bP: "blockSuccessors st' P = opsSuccessors before @ [C]"
        using kP by (simp add: blockSuccessors_def opsSuccessors_append opsSuccessors_replaceUses opsSuccessors_def [of "[_]"])
      have bC: "blockSuccessors st' C = [F, E]"
        using kC by (simp add: blockSuccessors_def opsSuccessors_def)
      have bL: "blockSuccessors st' lastBody = opsSuccessors lops @ [C]"
        using kL by (simp add: blockSuccessors_def opsSuccessors_append opsSuccessors_replaceUses opsSuccessors_def [of "[_, _]"])
      have bF: "rest \<noteq> [] \<longrightarrow> blockSuccessors st' F = opsSuccessors cops"
        using kF by (simp add: blockSuccessors_def opsSuccessors_replaceUses)
      have oth: "\<forall>b. b \<notin> {P, C, F, E, lastBody} \<longrightarrow> set (blockSuccessors st' b) \<subseteq> set (blockSuccessors st b)"
        using kO blockSuccessors_erased by blast
      have fr: "E \<notin> set (preB @ [P] @ postB @ C # rest)" "F \<notin> set (preB @ [P] @ postB @ C # rest)" "E \<noteq> F"
        using fresh_notin [OF fresh, of E] fresh_notin [OF fresh, of F] names by auto
      have lb_in: "rest \<noteq> [] \<longrightarrow> lastBody \<in> set rest"
        by (simp add: lastBody_def)
      have sC: "set (opsSuccessors cops) \<subseteq> set (C # rest)"
        using cfg(3) C by (auto simp: blockSuccessors_def)
      have sL: "set (opsSuccessors lops) \<subseteq> set (C # rest)"
      proof -
        have "last (C # rest) \<in> set (C # rest)" by (rule last_in_set) simp
        then have "set (blockSuccessors st (last (C # rest))) \<subseteq> set (C # rest)"
          using cfg(3) by blast
        then show ?thesis
          using L by (auto simp: blockSuccessors_def opsSuccessors_append)
      qed
      have outside: "\<forall>b \<in> set (preB @ postB). \<forall>s \<in> set (blockSuccessors st' b). s \<notin> set (C # F # rest) \<and> s \<noteq> E"
      proof (intro ballI)
        fix b s
        assume b: "b \<in> set (preB @ postB)" and s: "s \<in> set (blockSuccessors st' b)"
        have "b \<notin> {P, C, F, E, lastBody}"
          using b dist fr lb_in by (auto simp: lastBody_def)
        then have "s \<in> set (blockSuccessors st b)"
          using oth s by blast
        then have "s \<in> set (preB @ [P] @ postB)"
          using cfg(2) b by blast
        then show "s \<notin> set (C # F # rest) \<and> s \<noteq> E"
          using dist fr by auto
      qed
      have inside: "\<forall>b \<in> set (P # C # F # rest). \<forall>s \<in> set (blockSuccessors st' b). s \<in> set (P # (C # F # rest) @ [E])"
      proof (intro ballI)
        fix b s
        assume b: "b \<in> set (P # C # F # rest)" and s: "s \<in> set (blockSuccessors st' b)"
        consider "b = P" | "b = C" | "b = lastBody" | "b = F" "rest \<noteq> []" | "b \<in> set rest" "b \<noteq> lastBody"
          using b by (cases "rest = []") (auto simp: lastBody_def)
        then show "s \<in> set (P # (C # F # rest) @ [E])"
        proof cases
          case 1
          then show ?thesis using s bP cfg(1) by (simp add: opsSuccessors_no_successors)
        next
          case 2
          then show ?thesis using s bC by auto
        next
          case 3
          then show ?thesis using s bL sL by auto
        next
          case 4
          then show ?thesis using s bF sC by auto
        next
          case 5
          then have "b \<notin> {P, C, F, E, lastBody}"
            using dist fr by auto
          then have "s \<in> set (blockSuccessors st b)"
            using oth s by blast
          then show ?thesis
            using cfg(3) 5(1) by auto
        qed
      qed
      show ?thesis
        using run reg outside inside by (auto simp: singleEntrySingleExit_def)
    qed
    done
qed

lemma IfLowering_sese:
  fixes st :: IR
  assumes ip: "insertionBlock st = P" "insertionPoint st = Before (opId ifOp)"
    and P: "blocks st P = Some \<lparr>blockArguments = Pargs, blockOperations = before @ [ifOp] @ after,
                                blockParent = R\<rparr>"
    and R: "regions st R = preB @ [P] @ postB"
    and ifOp: "opOperands ifOp = [cond]" "opRegions ifOp = [Rt, Re]" "opResultTypes ifOp = resTs"
    and Rt: "regions st Rt = T # trest" "R \<noteq> Rt" "R \<noteq> Re" "Rt \<noteq> Re"
    and Lt: "blocks st (last (T # trest)) =
              Some \<lparr>blockArguments = targs, blockOperations = tops @ [tterm], blockParent = Rt\<rparr>"
    and Re: "regions st Re = eblocks" "eblocks = [] \<longrightarrow> resTs = []"
    and Le: "eblocks \<noteq> [] \<longrightarrow> blocks st (last eblocks) =
              Some \<lparr>blockArguments = eargs, blockOperations = eops @ [eterm], blockParent = Re\<rparr>"
    and dist: "distinct (preB @ [P] @ postB @ (T # trest) @ eblocks)"
    and fresh: "\<forall>b \<in> set (preB @ [P] @ postB @ (T # trest) @ eblocks). b < nextBlock st"
    and ids: "opId ifOp \<notin> opId ` set (before @ after @ tops @ [tterm])"
             "opId tterm \<notin> opId ` set (before @ after @ tops)"
             "eblocks \<noteq> [] \<longrightarrow> opId ifOp \<notin> opId ` set (eops @ [eterm])
                \<and> opId tterm \<notin> opId ` set (eops @ [eterm])
                \<and> opId eterm \<notin> opId ` set (before @ after @ tops @ eops) \<and> opId eterm < nextOp st"
             "opId ifOp < nextOp st" "opId tterm < nextOp st"
    and ssa: "\<forall>v \<in> {cond} \<union> set (opOperands tterm). v \<notin> set (getResults ifOp)"
             "eblocks \<noteq> [] \<longrightarrow> (\<forall>v \<in> set (opOperands eterm). v \<notin> set (getResults ifOp))"
    and cfg: "\<forall>x \<in> set before. opSuccessors x = []"
             "\<forall>b \<in> set (preB @ postB). set (blockSuccessors st b) \<subseteq> set (preB @ [P] @ postB)"
             "\<forall>b \<in> set (T # trest). set (blockSuccessors st b) \<subseteq> set (T # trest)"
             "\<forall>b \<in> set eblocks. set (blockSuccessors st b) \<subseteq> set eblocks"
    and names: "E = nextBlock st" "D = nextBlock st + 1"
               "inner = (T # trest) @ eblocks @ (if resTs = [] then [] else [D])"
  shows "\<exists>st'. IfLowering_matchAndRewrite ifOp st = Inr (success, st')
       \<and> regions st' R = preB @ [P] @ inner @ [E] @ postB
       \<and> singleEntrySingleExit st' (preB @ postB) P inner E
       \<and> (preB = [] \<longrightarrow> hd (regions st' R) = P)
       \<and> (postB = [] \<longrightarrow> last (regions st' R) = E)"
proof -
  define continueBlock where "continueBlock = (if resTs = [] then E else D)"
  define n where "n = (if resTs = [] then nextOp st else nextOp st + 1)"
  define m where "m = zip (getResults ifOp) (argumentValues continueBlock resTs)"
  define Lt where "Lt = last (T # trest)"
  note ex = IfLowering_exec [OF ip P R ifOp Rt Lt Re Le dist fresh ids ssa names(1,2) refl
      continueBlock_def n_def m_def]
  show ?thesis
    using ex
    apply (elim exE conjE)
    subgoal premises h for st'
    proof -
      note run = h(1) and reg = h(2) and kP = h(3) and kD = h(4) and kLt = h(5) and kLe = h(6)
        and kO = h(8)
      have bP: "blockSuccessors st' P =
                  opsSuccessors before @ [T, if eblocks = [] then continueBlock else hd eblocks]"
        using kP by (simp add: blockSuccessors_def opsSuccessors_append opsSuccessors_replaceUses opsSuccessors_def [of "[_]"])
      have bD: "resTs \<noteq> [] \<longrightarrow> blockSuccessors st' D = [E]"
        using kD by (simp add: blockSuccessors_def opsSuccessors_def)
      have bLt: "blockSuccessors st' Lt = opsSuccessors tops @ [continueBlock]"
        using kLt by (simp add: Lt_def blockSuccessors_def opsSuccessors_append opsSuccessors_replaceUses opsSuccessors_def [of "[_]"])
      have bLe: "eblocks \<noteq> [] \<longrightarrow> blockSuccessors st' (last eblocks) = opsSuccessors eops @ [continueBlock]"
        using kLe by (simp add: blockSuccessors_def opsSuccessors_append opsSuccessors_replaceUses opsSuccessors_def [of "[_]"])
      have oth: "set (blockSuccessors st' b) \<subseteq> set (blockSuccessors st b)"
        if "b \<notin> {P, E, D, Lt}" "eblocks \<noteq> [] \<longrightarrow> b \<noteq> last eblocks" for b
      proof (cases "blocks st b")
        case None
        with kO that have "blocks st' b = None"
          unfolding Lt_def by blast
        then show ?thesis by (simp add: blockSuccessors_def)
      next
        case (Some B)
        with kO that obtain B' where B': "blocks st' b = Some B'"
          "blockOperations B' =
             filter (\<lambda>x. opId x \<noteq> opId ifOp) (map (replaceUsesInOp m)
               ((if eblocks = [] then id else filter (\<lambda>x. opId x \<noteq> opId eterm))
                  (filter (\<lambda>x. opId x \<noteq> opId tterm) (blockOperations B))))"
          unfolding Lt_def by blast
        show ?thesis
          by (rule blockSuccessors_filtered
              [where g = "if eblocks = [] then id else filter (\<lambda>x. opId x \<noteq> opId eterm)"
                 and r = "\<lambda>x. opId x \<noteq> opId eterm" and p = "\<lambda>x. opId x \<noteq> opId ifOp"
                 and q = "\<lambda>x. opId x \<noteq> opId tterm" and m = m, OF Some B'(1) B'(2)]) auto
      qed
      have fr: "E \<notin> set (preB @ [P] @ postB @ (T # trest) @ eblocks)"
        "D \<notin> set (preB @ [P] @ postB @ (T # trest) @ eblocks)" "E \<noteq> D"
        using fresh_notin [OF fresh, of E] fresh_notin [OF fresh, of D] names by auto
      have LtT: "Lt \<in> set (T # trest)"
        unfolding Lt_def by (rule last_in_set) simp
      have LeE: "eblocks \<noteq> [] \<longrightarrow> last eblocks \<in> set eblocks"
        by simp
      have cb: "continueBlock \<in> set inner \<or> continueBlock = E"
        by (simp add: continueBlock_def names(3))
      have sT: "set (opsSuccessors tops) \<subseteq> set (T # trest)"
      proof -
        have "set (blockSuccessors st Lt) \<subseteq> set (T # trest)"
          using cfg(3) LtT by blast
        then show ?thesis
          using Lt by (auto simp: Lt_def blockSuccessors_def opsSuccessors_append)
      qed
      have sE: "eblocks \<noteq> [] \<longrightarrow> set (opsSuccessors eops) \<subseteq> set eblocks"
      proof
        assume ne: "eblocks \<noteq> []"
        then have "set (blockSuccessors st (last eblocks)) \<subseteq> set eblocks"
          using cfg(4) by simp
        then show "set (opsSuccessors eops) \<subseteq> set eblocks"
          using Le ne by (auto simp: blockSuccessors_def opsSuccessors_append)
      qed
      have outside: "\<forall>b \<in> set (preB @ postB). \<forall>s \<in> set (blockSuccessors st' b). s \<notin> set inner \<and> s \<noteq> E"
      proof (intro ballI)
        fix b s
        assume b: "b \<in> set (preB @ postB)" and s: "s \<in> set (blockSuccessors st' b)"
        have "b \<notin> {P, E, D, Lt}" "eblocks \<noteq> [] \<longrightarrow> b \<noteq> last eblocks"
          using b dist fr LtT LeE by auto
        then have "s \<in> set (blockSuccessors st b)"
          using oth s by blast
        then have "s \<in> set (preB @ [P] @ postB)"
          using cfg(2) b by blast
        then show "s \<notin> set inner \<and> s \<noteq> E"
          using dist fr by (auto simp: names(3))
      qed
      have inside: "\<forall>b \<in> set (P # inner). \<forall>s \<in> set (blockSuccessors st' b). s \<in> set (P # inner @ [E])"
      proof (intro ballI)
        fix b s
        assume b: "b \<in> set (P # inner)" and s: "s \<in> set (blockSuccessors st' b)"
        consider "b = P" | "b = Lt" | "eblocks \<noteq> []" "b = last eblocks" | "resTs \<noteq> []" "b = D"
          | "b \<in> set (T # trest)" "b \<noteq> Lt" | "b \<in> set eblocks" "b \<noteq> last eblocks"
          using b by (cases "resTs = []"; cases "b = last eblocks"; cases "b = Lt"; cases "eblocks = []")
            (auto simp: names(3))
        then show "s \<in> set (P # inner @ [E])"
        proof cases
          case 1
          have "hd eblocks \<in> set eblocks" if "eblocks \<noteq> []"
            using that by simp
          then show ?thesis
            using 1 s bP cfg(1) cb by (auto simp: opsSuccessors_no_successors names(3))
        next
          case 2
          then show ?thesis using s bLt sT cb by (auto simp: names(3))
        next
          case 3
          then show ?thesis using s bLe sE cb by (auto simp: names(3))
        next
          case 4
          then show ?thesis using s bD by auto
        next
          case 5
          then have "b \<notin> {P, E, D, Lt}" "eblocks \<noteq> [] \<longrightarrow> b \<noteq> last eblocks"
            using dist fr LeE by auto
          then have "s \<in> set (blockSuccessors st b)"
            using oth s by blast
          then show ?thesis
            using cfg(3) 5(1) by (auto simp: names(3))
        next
          case 6
          then have "b \<notin> {P, E, D, Lt}" "eblocks \<noteq> [] \<longrightarrow> b \<noteq> last eblocks"
            using dist fr LtT by auto
          then have "s \<in> set (blockSuccessors st b)"
            using oth s by blast
          then show ?thesis
            using cfg(4) 6(1) by (auto simp: names(3))
        qed
      qed
      show ?thesis
        using run reg outside inside by (auto simp: singleEntrySingleExit_def names(3))
    qed
    done
qed

subsection \<open>Facts about the example inputs\<close>

lemmas example_defs =
  exampleForIR_def exampleFor2IR_def exampleIfIR_def exampleFor_def exampleIf_def exampleUse_def
  exampleDefs_def exampleIfDefs_def exampleBodyOp_def exampleYield_def exampleThenYield_def
  exampleElseYield_def exampleEntryBranch_def exampleLateBranch_def exampleLateUse_def
  exampleFor3IR_def exampleIf3IR_def

lemma exampleFor_results:
  "getResults exampleFor = [OpResult 10 0 (OtherType 7)]"
  "getNumResults exampleFor = 1"
  by code_simp+

lemma example_argumentValues:
  "argumentValues b [t0, t1] = [BlockArgument b 0 t0, BlockArgument b (Suc 0) t1]"
  "argumentValues b [t0] = [BlockArgument b 0 t0]"
  by (simp_all add: argumentValues_def upt_rec)

subsection \<open>The control-flow graph of a lowered loop\<close>

text \<open>
  Claim C3. Let a \<open>loop.for\<close> with lower bound \<open>lb\<close>, upper bound \<open>ub\<close>, step
  \<open>step\<close> and initial values \<open>iters\<close> stand in block \<open>P\<close> of region \<open>R\<close>, and let its
  body have the blocks \<open>C # rest\<close>, the last of which ends in the loop terminator. Then
  \<open>ForLowering\<close> succeeds and leaves the blocks \<open>P, C, F, rest, E\<close> in place of \<open>P\<close>,
  where \<open>E\<close> (the continuation block) holds the operations that followed the loop and
  \<open>F\<close> (the first body block) is split off \<open>C\<close>:

    \<^item> \<open>P\<close> ends in a branch to the condition block \<open>C\<close> carrying \<open>lb\<close> and \<open>iters\<close>;
    \<^item> \<open>C\<close> has the induction variable as its first argument, followed by the
      loop-carried values; it compares the induction variable with \<open>ub\<close> by
      \<open>cmpi slt\<close> and branches on the result to \<open>F\<close> or to \<open>E\<close>;
    \<^item> the last body block has lost the terminator and gained the addition of \<open>step\<close>
      to the induction variable and a branch to \<open>C\<close> that carries the sum and then the
      operands of the terminator;
    \<^item> in all these blocks the \<open>i\<close>-th result of the \<open>loop.for\<close> is replaced by argument
      \<open>i + 1\<close> of \<open>C\<close> (the map \<open>m\<close>: the arguments of \<open>C\<close> without the first);
    \<^item> every other block of the state, in particular every other block of \<open>R\<close>, keeps
      its operations with the results of the \<open>loop.for\<close> replaced in the same way;
      the body blocks \<open>rest\<close> now belong to \<open>R\<close>.
\<close>

theorem ForLowering_cfg:
  fixes st :: IR
  assumes ip: "insertionBlock st = P" "insertionPoint st = Before (opId forOp)"
    and P: "blocks st P = Some \<lparr>blockArguments = Pargs, blockOperations = before @ [forOp] @ after,
                                blockParent = R\<rparr>"
    and R: "regions st R = preB @ [P] @ postB"
    and forOp: "opOperands forOp = lb # ub # step # iters" "opRegions forOp = [Rb]"
               "getNumResults forOp = length iterTs"
    and Rb: "regions st Rb = C # rest" "R \<noteq> Rb"
    and C: "blocks st C = Some \<lparr>blockArguments = ivT # iterTs, blockOperations = cops, blockParent = Rb\<rparr>"
    and L: "blocks st (last (C # rest)) =
              Some \<lparr>blockArguments = largs, blockOperations = lops @ [terminator], blockParent = Rb\<rparr>"
    and dist: "distinct (preB @ [P] @ postB @ C # rest)"
    and fresh: "\<forall>b \<in> set (preB @ [P] @ postB @ C # rest). b < nextBlock st"
    and ids: "opId forOp \<notin> opId ` set (before @ after @ cops @ lops @ [terminator])"
             "opId terminator \<notin> opId ` set (before @ after @ lops)"
             "rest \<noteq> [] \<longrightarrow> opId terminator \<notin> opId ` set cops"
             "opId forOp < nextOp st" "opId terminator < nextOp st"
    and nonnull: "lb \<noteq> NullValue" "ub \<noteq> NullValue"
    and ssa: "\<forall>v \<in> set (opOperands forOp) \<union> set (opOperands terminator). v \<notin> set (getResults forOp)"
    and names: "E = nextBlock st" "F = nextBlock st + 1" "n = nextOp st" "loc = opLoc forOp"
               "iv = BlockArgument C 0 ivT"
               "lastBody = (if rest = [] then F else last rest)"
               "m = zip (getResults forOp) (drop 1 (argumentValues C (ivT # iterTs)))"
  shows "\<exists>st'. ForLowering_matchAndRewrite forOp st = Inr (success, st')
       \<and> regions st' R = preB @ [P, C, F] @ rest @ [E] @ postB
       \<and> blocks st' P =
           Some \<lparr>blockArguments = Pargs,
                 blockOperations = map (replaceUsesInOp m) before @
                   [\<lparr>opId = n + 2, opName = BranchOp, opLoc = loc, opOperands = [],
                     opResultTypes = [], opSuccessors = [(C, lb # iters)], opRegions = []\<rparr>],
                 blockParent = R\<rparr>
       \<and> blocks st' C =
           Some \<lparr>blockArguments = ivT # iterTs,
                 blockOperations =
                   [\<lparr>opId = n + 3, opName = CmpIOp slt, opLoc = loc, opOperands = [iv, ub],
                     opResultTypes = [IntegerType 1], opSuccessors = [], opRegions = []\<rparr>,
                    \<lparr>opId = n + 4, opName = CondBranchOp, opLoc = loc,
                     opOperands = [OpResult (n + 3) 0 (IntegerType 1)], opResultTypes = [],
                     opSuccessors = [(F, []), (E, [])], opRegions = []\<rparr>],
                 blockParent = R\<rparr>
       \<and> blocks st' lastBody =
           Some \<lparr>blockArguments = (if rest = [] then [] else largs),
                 blockOperations = map (replaceUsesInOp m) lops @
                   [\<lparr>opId = n, opName = AddIOp, opLoc = loc, opOperands = [iv, step],
                     opResultTypes = [ivT], opSuccessors = [], opRegions = []\<rparr>,
                    \<lparr>opId = n + 1, opName = BranchOp, opLoc = loc, opOperands = [],
                     opResultTypes = [],
                     opSuccessors = [(C, OpResult n 0 ivT # opOperands terminator)], opRegions = []\<rparr>],
                 blockParent = R\<rparr>
       \<and> (rest \<noteq> [] \<longrightarrow>
            blocks st' F = Some \<lparr>blockArguments = [], blockOperations = map (replaceUsesInOp m) cops,
                                  blockParent = R\<rparr>)
       \<and> blocks st' E = Some \<lparr>blockArguments = [], blockOperations = map (replaceUsesInOp m) after,
                                blockParent = R\<rparr>
       \<and> (\<forall>b. b \<notin> {P, C, F, E, lastBody} \<longrightarrow>
              blocks st' b =
                map_option (eraseFromBlock (opId forOp))
                  (map_option (replaceUsesInBlock m)
                     (map_option (eraseFromBlock (opId terminator))
                        (if b \<in> set rest
                         then map_option (blockParent_update (\<lambda>_. R)) (blocks st b)
                         else blocks st b))))"
  using ForLowering_exec [OF assms] .

text \<open>
  The loop of \<open>exampleFor3IR\<close> becomes the blocks 0, 1, 10 and 9, and its result is
  replaced in the continuation block 9 and in the later block 8 of the region.
\<close>

theorem ForLowering_cfg_witness:
  "\<exists>st'. ForLowering_matchAndRewrite exampleFor exampleFor3IR = Inr (success, st')
     \<and> regions st' 0 = [0, 1, 10, 9, 8]
     \<and> blocks st' 1 =
         Some \<lparr>blockArguments = [IndexType, OtherType 7],
               blockOperations =
                 [\<lparr>opId = 33, opName = CmpIOp slt, opLoc = 5,
                   opOperands = [BlockArgument 1 0 IndexType, OpResult 2 0 IndexType],
                   opResultTypes = [IntegerType 1], opSuccessors = [], opRegions = []\<rparr>,
                  \<lparr>opId = 34, opName = CondBranchOp, opLoc = 5,
                   opOperands = [OpResult 33 0 (IntegerType 1)], opResultTypes = [],
                   opSuccessors = [(10, []), (9, [])], opRegions = []\<rparr>],
               blockParent = 0\<rparr>
     \<and> blocks st' 9 =
         Some \<lparr>blockArguments = [],
               blockOperations = [exampleUse\<lparr>opOperands := [BlockArgument 1 1 (OtherType 7)]\<rparr>,
                                  exampleLateBranch],
               blockParent = 0\<rparr>
     \<and> blocks st' 8 =
         Some \<lparr>blockArguments = [],
               blockOperations = [exampleLateUse\<lparr>opOperands := [BlockArgument 1 1 (OtherType 7)]\<rparr>],
               blockParent = 0\<rparr>"
proof -
  define m where "m = zip (getResults exampleFor) (drop 1 (argumentValues 1 [IndexType, OtherType 7]))"
  have hs:
    "insertionBlock exampleFor3IR = 0" "insertionPoint exampleFor3IR = Before (opId exampleFor)"
    "blocks exampleFor3IR 0 =
       Some \<lparr>blockArguments = [],
             blockOperations = exampleDefs @ [exampleFor] @ [exampleUse, exampleLateBranch],
             blockParent = 0\<rparr>"
    "regions exampleFor3IR 0 = [] @ [0] @ [8]"
    "opOperands exampleFor =
       OpResult 1 0 IndexType # OpResult 2 0 IndexType # OpResult 3 0 IndexType #
       [OpResult 4 0 (OtherType 7)]"
    "opRegions exampleFor = [1]" "getNumResults exampleFor = length [OtherType 7]"
    "regions exampleFor3IR 1 = 1 # []" "(0 :: nat) \<noteq> 1"
    "blocks exampleFor3IR 1 =
       Some \<lparr>blockArguments = IndexType # [OtherType 7],
             blockOperations = [exampleBodyOp, exampleYield], blockParent = 1\<rparr>"
    "blocks exampleFor3IR (last (1 # [])) =
       Some \<lparr>blockArguments = [IndexType, OtherType 7],
             blockOperations = [exampleBodyOp] @ [exampleYield], blockParent = 1\<rparr>"
    "distinct ([] @ [0] @ [8] @ 1 # ([] :: nat list))"
    "\<forall>b \<in> set ([] @ [0] @ [8] @ 1 # []). b < nextBlock exampleFor3IR"
    "opId exampleFor \<notin> opId ` set (exampleDefs @ [exampleUse, exampleLateBranch] @
        [exampleBodyOp, exampleYield] @ [exampleBodyOp] @ [exampleYield])"
    "opId exampleYield \<notin> opId ` set (exampleDefs @ [exampleUse, exampleLateBranch] @ [exampleBodyOp])"
    "([] :: nat list) \<noteq> [] \<longrightarrow> opId exampleYield \<notin> opId ` set [exampleBodyOp, exampleYield]"
    "opId exampleFor < nextOp exampleFor3IR" "opId exampleYield < nextOp exampleFor3IR"
    "OpResult 1 0 IndexType \<noteq> NullValue" "OpResult 2 0 IndexType \<noteq> NullValue"
    "\<forall>v \<in> set (opOperands exampleFor) \<union> set (opOperands exampleYield).
       v \<notin> set (getResults exampleFor)"
    "9 = nextBlock exampleFor3IR" "10 = nextBlock exampleFor3IR + 1" "30 = nextOp exampleFor3IR"
    "5 = opLoc exampleFor" "BlockArgument 1 0 IndexType = BlockArgument 1 0 IndexType"
    "(10 :: nat) = (if ([] :: nat list) = [] then 10 else last [])"
    by (simp_all add: example_defs getNumResults_def getResults_def getResult_def upt_rec)
  have u: "replaceUsesInOp m exampleUse = exampleUse\<lparr>opOperands := [BlockArgument 1 1 (OtherType 7)]\<rparr>"
    "replaceUsesInOp m exampleLateBranch = exampleLateBranch"
    unfolding m_def by code_simp+
  have w: "map_option (eraseFromBlock (opId exampleFor))
             (map_option (replaceUsesInBlock m)
                (map_option (eraseFromBlock (opId exampleYield)) (blocks exampleFor3IR 8))) =
           Some \<lparr>blockArguments = [],
                 blockOperations = [exampleLateUse\<lparr>opOperands := [BlockArgument 1 1 (OtherType 7)]\<rparr>],
                 blockParent = 0\<rparr>"
    unfolding m_def by code_simp
  note r = ForLowering_cfg [OF hs m_def]
  from r show ?thesis
    apply (elim exE conjE)
    subgoal premises h for st'
      using h(1-4,7) spec [OF h(8), of 8] by (simp add: u w)
    done
qed

subsection \<open>The control-flow graph of a lowered conditional\<close>

text \<open>
  Claim C4. Let a \<open>loop.if\<close> with condition \<open>cond\<close> and result types \<open>resTs\<close> stand in
  block \<open>P\<close> of region \<open>R\<close>; let its "then" region have the blocks \<open>T # trest\<close> and its
  "else" region the blocks \<open>eblocks\<close>, which may be none when the operation has no result.
  Then \<open>IfLowering\<close> succeeds, and with \<open>E\<close> the block split off after the \<open>loop.if\<close>:

    \<^item> without results the target \<open>continueBlock\<close> of the two regions is \<open>E\<close>; with
      results it is a new block \<open>D\<close>, placed before \<open>E\<close>, whose arguments have the types
      \<open>resTs\<close> and whose only operation is a branch to \<open>E\<close>, and the results of the
      \<open>loop.if\<close> are replaced by the arguments of \<open>D\<close> (the map \<open>m\<close>);
    \<^item> the terminator of the last block of either region is replaced by a branch to
      \<open>continueBlock\<close> that carries the operands of the terminator;
    \<^item> \<open>P\<close> ends in a conditional branch on \<open>cond\<close> whose true edge goes to \<open>T\<close>, and
      whose false edge goes to the first "else" block, or to \<open>continueBlock\<close> when the
      "else" region is empty;
    \<^item> every other block of the state, in particular every other block of \<open>R\<close>, keeps
      its operations with the results of the \<open>loop.if\<close> replaced by the map \<open>m\<close>.
\<close>

theorem IfLowering_cfg:
  fixes st :: IR
  assumes ip: "insertionBlock st = P" "insertionPoint st = Before (opId ifOp)"
    and P: "blocks st P = Some \<lparr>blockArguments = Pargs, blockOperations = before @ [ifOp] @ after,
                                blockParent = R\<rparr>"
    and R: "regions st R = preB @ [P] @ postB"
    and ifOp: "opOperands ifOp = [cond]" "opRegions ifOp = [Rt, Re]" "opResultTypes ifOp = resTs"
    and Rt: "regions st Rt = T # trest" "R \<noteq> Rt" "R \<noteq> Re" "Rt \<noteq> Re"
    and Lt: "blocks st (last (T # trest)) =
              Some \<lparr>blockArguments = targs, blockOperations = tops @ [tterm], blockParent = Rt\<rparr>"
    and Re: "regions st Re = eblocks" "eblocks = [] \<longrightarrow> resTs = []"
    and Le: "eblocks \<noteq> [] \<longrightarrow> blocks st (last eblocks) =
              Some \<lparr>blockArguments = eargs, blockOperations = eops @ [eterm], blockParent = Re\<rparr>"
    and dist: "distinct (preB @ [P] @ postB @ (T # trest) @ eblocks)"
    and fresh: "\<forall>b \<in> set (preB @ [P] @ postB @ (T # trest) @ eblocks). b < nextBlock st"
    and ids: "opId ifOp \<notin> opId ` set (before @ after @ tops @ [tterm])"
             "opId tterm \<notin> opId ` set (before @ after @ tops)"
             "eblocks \<noteq> [] \<longrightarrow> opId ifOp \<notin> opId ` set (eops @ [eterm])
                \<and> opId tterm \<notin> opId ` set (eops @ [eterm])
                \<and> opId eterm \<notin> opId ` set (before @ after @ tops @ eops) \<and> opId eterm < nextOp st"
             "opId ifOp < nextOp st" "opId tterm < nextOp st"
    and ssa: "\<forall>v \<in> {cond} \<union> set (opOperands tterm). v \<notin> set (getResults ifOp)"
             "eblocks \<noteq> [] \<longrightarrow> (\<forall>v \<in> set (opOperands eterm). v \<notin> set (getResults ifOp))"
    and names: "E = nextBlock st" "D = nextBlock st + 1" "loc = opLoc ifOp"
               "continueBlock = (if resTs = [] then E else D)"
               "n = (if resTs = [] then nextOp st else nextOp st + 1)"
               "m = zip (getResults ifOp) (argumentValues continueBlock resTs)"
  shows "\<exists>st'. IfLowering_matchAndRewrite ifOp st = Inr (success, st')
       \<and> regions st' R = preB @ [P] @ (T # trest) @ eblocks @ (if resTs = [] then [] else [D]) @ [E] @ postB
       \<and> blocks st' P =
           Some \<lparr>blockArguments = Pargs,
                 blockOperations = map (replaceUsesInOp m) before @
                   [\<lparr>opId = (if eblocks = [] then n + 1 else n + 2), opName = CondBranchOp, opLoc = loc,
                     opOperands = [cond], opResultTypes = [],
                     opSuccessors = [(T, []), (if eblocks = [] then continueBlock else hd eblocks, [])],
                     opRegions = []\<rparr>],
                 blockParent = R\<rparr>
       \<and> (resTs \<noteq> [] \<longrightarrow>
            blocks st' D =
              Some \<lparr>blockArguments = resTs,
                    blockOperations =
                      [\<lparr>opId = nextOp st, opName = BranchOp, opLoc = loc, opOperands = [],
                        opResultTypes = [], opSuccessors = [(E, [])], opRegions = []\<rparr>],
                    blockParent = R\<rparr>)
       \<and> blocks st' (last (T # trest)) =
           Some \<lparr>blockArguments = targs,
                 blockOperations = map (replaceUsesInOp m) tops @
                   [\<lparr>opId = n, opName = BranchOp, opLoc = loc, opOperands = [], opResultTypes = [],
                     opSuccessors = [(continueBlock, opOperands tterm)], opRegions = []\<rparr>],
                 blockParent = R\<rparr>
       \<and> (eblocks \<noteq> [] \<longrightarrow>
            blocks st' (last eblocks) =
              Some \<lparr>blockArguments = eargs,
                    blockOperations = map (replaceUsesInOp m) eops @
                      [\<lparr>opId = n + 1, opName = BranchOp, opLoc = loc, opOperands = [],
                        opResultTypes = [], opSuccessors = [(continueBlock, opOperands eterm)],
                        opRegions = []\<rparr>],
                    blockParent = R\<rparr>)
       \<and> blocks st' E = Some \<lparr>blockArguments = [], blockOperations = map (replaceUsesInOp m) after,
                                blockParent = R\<rparr>
       \<and> (\<forall>b. b \<notin> {P, E, D, last (T # trest)} \<and> (eblocks \<noteq> [] \<longrightarrow> b \<noteq> last eblocks) \<longrightarrow>
              (blocks st b = None \<longrightarrow> blocks st' b = None) \<and>
              (\<forall>B. blocks st b = Some B \<longrightarrow>
                 (\<exists>B'. blocks st' b = Some B' \<and>
                    blockOperations B' =
                      filter (\<lambda>x. opId x \<noteq> opId ifOp) (map (replaceUsesInOp m)
                        ((if eblocks = [] then id else filter (\<lambda>x. opId x \<noteq> opId eterm))
                           (filter (\<lambda>x. opId x \<noteq> opId tterm) (blockOperations B)))))))"
  using IfLowering_exec [OF assms] .

text \<open>
  The conditional of \<open>exampleIf3IR\<close> becomes the blocks 0, 1, 2, 10 and 9, and its
  result is replaced in the continuation block 9 and in the later block 8 of the region.
\<close>

theorem IfLowering_cfg_witness:
  "\<exists>st'. IfLowering_matchAndRewrite exampleIf exampleIf3IR = Inr (success, st')
     \<and> regions st' 0 = [0, 1, 2, 10, 9, 8]
     \<and> blocks st' 10 =
         Some \<lparr>blockArguments = [OtherType 7],
               blockOperations =
                 [\<lparr>opId = 30, opName = BranchOp, opLoc = 5, opOperands = [], opResultTypes = [],
                   opSuccessors = [(9, [])], opRegions = []\<rparr>],
               blockParent = 0\<rparr>
     \<and> blocks st' 1 =
         Some \<lparr>blockArguments = [],
               blockOperations =
                 [\<lparr>opId = 31, opName = BranchOp, opLoc = 5, opOperands = [], opResultTypes = [],
                   opSuccessors = [(10, [OpResult 2 0 (OtherType 7)])], opRegions = []\<rparr>],
               blockParent = 0\<rparr>
     \<and> blocks st' 9 =
         Some \<lparr>blockArguments = [],
               blockOperations = [exampleUse\<lparr>opOperands := [BlockArgument 10 0 (OtherType 7)]\<rparr>,
                                  exampleLateBranch],
               blockParent = 0\<rparr>
     \<and> map_option blockOperations (blocks st' 8) =
         Some [exampleLateUse\<lparr>opOperands := [BlockArgument 10 0 (OtherType 7)]\<rparr>]"
proof -
  define m where "m = zip (getResults exampleIf) (argumentValues 10 [OtherType 7])"
  have hs:
    "insertionBlock exampleIf3IR = 0" "insertionPoint exampleIf3IR = Before (opId exampleIf)"
    "blocks exampleIf3IR 0 =
       Some \<lparr>blockArguments = [],
             blockOperations = exampleIfDefs @ [exampleIf] @ [exampleUse, exampleLateBranch],
             blockParent = 0\<rparr>"
    "regions exampleIf3IR 0 = [] @ [0] @ [8]"
    "opOperands exampleIf = [OpResult 1 0 (IntegerType 1)]"
    "opRegions exampleIf = [1, 2]" "opResultTypes exampleIf = [OtherType 7]"
    "regions exampleIf3IR 1 = 1 # []" "(0 :: nat) \<noteq> 1" "(0 :: nat) \<noteq> 2" "(1 :: nat) \<noteq> 2"
    "blocks exampleIf3IR (last (1 # [])) =
       Some \<lparr>blockArguments = [], blockOperations = [] @ [exampleThenYield], blockParent = 1\<rparr>"
    "regions exampleIf3IR 2 = [2]" "[2 :: nat] = [] \<longrightarrow> [OtherType 7] = []"
    "[2 :: nat] \<noteq> [] \<longrightarrow> blocks exampleIf3IR (last [2]) =
       Some \<lparr>blockArguments = [], blockOperations = [] @ [exampleElseYield], blockParent = 2\<rparr>"
    "distinct ([] @ [0] @ [8] @ (1 # []) @ [2 :: nat])"
    "\<forall>b \<in> set ([] @ [0] @ [8] @ (1 # []) @ [2]). b < nextBlock exampleIf3IR"
    "opId exampleIf \<notin> opId ` set (exampleIfDefs @ [exampleUse, exampleLateBranch] @ [] @
        [exampleThenYield])"
    "opId exampleThenYield \<notin> opId ` set (exampleIfDefs @ [exampleUse, exampleLateBranch] @ [])"
    "[2 :: nat] \<noteq> [] \<longrightarrow> opId exampleIf \<notin> opId ` set ([] @ [exampleElseYield])
       \<and> opId exampleThenYield \<notin> opId ` set ([] @ [exampleElseYield])
       \<and> opId exampleElseYield \<notin> opId ` set (exampleIfDefs @ [exampleUse, exampleLateBranch] @ [] @ [])
       \<and> opId exampleElseYield < nextOp exampleIf3IR"
    "opId exampleIf < nextOp exampleIf3IR" "opId exampleThenYield < nextOp exampleIf3IR"
    "\<forall>v \<in> {OpResult 1 0 (IntegerType 1)} \<union> set (opOperands exampleThenYield).
       v \<notin> set (getResults exampleIf)"
    "[2 :: nat] \<noteq> [] \<longrightarrow> (\<forall>v \<in> set (opOperands exampleElseYield). v \<notin> set (getResults exampleIf))"
    "9 = nextBlock exampleIf3IR" "10 = nextBlock exampleIf3IR + 1" "5 = opLoc exampleIf"
    "(10 :: nat) = (if [OtherType 7] = [] then 9 else 10)"
    "(31 :: nat) = (if [OtherType 7] = [] then nextOp exampleIf3IR else nextOp exampleIf3IR + 1)"
    by (simp_all add: example_defs getNumResults_def getResults_def getResult_def upt_rec)
  have u: "replaceUsesInOp m exampleUse = exampleUse\<lparr>opOperands := [BlockArgument 10 0 (OtherType 7)]\<rparr>"
    "replaceUsesInOp m exampleLateBranch = exampleLateBranch"
    unfolding m_def by code_simp+
  have y: "opOperands exampleThenYield = [OpResult 2 0 (OtherType 7)]"
    by (simp add: exampleThenYield_def)
  have n: "nextOp exampleIf3IR = 30"
    by (simp add: exampleIf3IR_def)
  have b: "blocks exampleIf3IR 8 =
             Some \<lparr>blockArguments = [], blockOperations = [exampleLateUse], blockParent = 0\<rparr>"
    by (simp add: exampleIf3IR_def)
  have w: "replaceUsesInOp m exampleLateUse =
             exampleLateUse\<lparr>opOperands := [BlockArgument 10 0 (OtherType 7)]\<rparr>"
    unfolding m_def by code_simp
  have i: "opId exampleLateUse = 12" "opId exampleIf = 10" "opId exampleThenYield = 21"
    "opId exampleElseYield = 22"
    by (simp_all add: example_defs)
  note r = IfLowering_cfg [OF hs m_def]
  from r show ?thesis
    apply (elim exE conjE)
    subgoal premises h for st'
      using h(1-7) spec [OF h(8), of 8] by (auto simp: u y n b w i)
    done
qed

subsection \<open>Single entry and single exit\<close>

text \<open>
  Claim C8. Assume moreover that the operations before the \<open>loop.for\<close> or \<open>loop.if\<close>
  have no successors, and that the blocks of a region branch to blocks of that region only.
  Then the blocks that replace the block \<open>P\<close> of the operation stand together in the
  parent region, in place of \<open>P\<close>; no block outside them branches to one of them other
  than \<open>P\<close>, and none of them other than the continuation block \<open>E\<close> branches out of
  them. The entry \<open>P\<close> is the first block of the parent region when no block stood
  before \<open>P\<close>, and the exit \<open>E\<close> is the last one when no block stood after \<open>P\<close>.
\<close>

theorem lowering_single_entry_single_exit:
  fixes st st2 :: IR
  assumes hf_ip: "insertionBlock st = P" "insertionPoint st = Before (opId forOp)"
    and hf_P: "blocks st P = Some \<lparr>blockArguments = Pargs, blockOperations = before @ [forOp] @ after,
                                blockParent = R\<rparr>"
    and hf_R: "regions st R = preB @ [P] @ postB"
    and hf_forOp: "opOperands forOp = lb # ub # step # iters" "opRegions forOp = [Rb]"
               "getNumResults forOp = length iterTs"
    and hf_Rb: "regions st Rb = C # rest" "R \<noteq> Rb"
    and hf_C: "blocks st C = Some \<lparr>blockArguments = ivT # iterTs, blockOperations = cops, blockParent = Rb\<rparr>"
    and hf_L: "blocks st (last (C # rest)) =
              Some \<lparr>blockArguments = largs, blockOperations = lops @ [terminator], blockParent = Rb\<rparr>"
    and hf_dist: "distinct (preB @ [P] @ postB @ C # rest)"
    and hf_fresh: "\<forall>b \<in> set (preB @ [P] @ postB @ C # rest). b < nextBlock st"
    and hf_ids: "opId forOp \<notin> opId ` set (before @ after @ cops @ lops @ [terminator])"
             "opId terminator \<notin> opId ` set (before @ after @ lops)"
             "rest \<noteq> [] \<longrightarrow> opId terminator \<notin> opId ` set cops"
             "opId forOp < nextOp st" "opId terminator < nextOp st"
    and hf_nonnull: "lb \<noteq> NullValue" "ub \<noteq> NullValue"
    and hf_ssa: "\<forall>v \<in> set (opOperands forOp) \<union> set (opOperands terminator). v \<notin> set (getResults forOp)"
    and hf_cfg: "\<forall>x \<in> set before. opSuccessors x = []"
             "\<forall>b \<in> set (preB @ postB). set (blockSuccessors st b) \<subseteq> set (preB @ [P] @ postB)"
             "\<forall>b \<in> set (C # rest). set (blockSuccessors st b) \<subseteq> set (C # rest)"
    and hf_names: "E = nextBlock st" "F = nextBlock st + 1"
    and hi_ip: "insertionBlock st2 = P2" "insertionPoint st2 = Before (opId ifOp2)"
    and hi_P: "blocks st2 P2 = Some \<lparr>blockArguments = Pargs2, blockOperations = before2 @ [ifOp2] @ after2,
                                blockParent = R2\<rparr>"
    and hi_R: "regions st2 R2 = preB2 @ [P2] @ postB2"
    and hi_ifOp: "opOperands ifOp2 = [cond2]" "opRegions ifOp2 = [Rt2, Re2]" "opResultTypes ifOp2 = resTs2"
    and hi_Rt: "regions st2 Rt2 = T2 # trest2" "R2 \<noteq> Rt2" "R2 \<noteq> Re2" "Rt2 \<noteq> Re2"
    and hi_Lt: "blocks st2 (last (T2 # trest2)) =
              Some \<lparr>blockArguments = targs2, blockOperations = tops2 @ [tterm2], blockParent = Rt2\<rparr>"
    and hi_Re: "regions st2 Re2 = eblocks2" "eblocks2 = [] \<longrightarrow> resTs2 = []"
    and hi_Le: "eblocks2 \<noteq> [] \<longrightarrow> blocks st2 (last eblocks2) =
              Some \<lparr>blockArguments = eargs2, blockOperations = eops2 @ [eterm2], blockParent = Re2\<rparr>"
    and hi_dist: "distinct (preB2 @ [P2] @ postB2 @ (T2 # trest2) @ eblocks2)"
    and hi_fresh: "\<forall>b \<in> set (preB2 @ [P2] @ postB2 @ (T2 # trest2) @ eblocks2). b < nextBlock st2"
    and hi_ids: "opId ifOp2 \<notin> opId ` set (before2 @ after2 @ tops2 @ [tterm2])"
             "opId tterm2 \<notin> opId ` set (before2 @ after2 @ tops2)"
             "eblocks2 \<noteq> [] \<longrightarrow> opId ifOp2 \<notin> opId ` set (eops2 @ [eterm2])
                \<and> opId tterm2 \<notin> opId ` set (eops2 @ [eterm2])
                \<and> opId eterm2 \<notin> opId ` set (before2 @ after2 @ tops2 @ eops2) \<and> opId eterm2 < nextOp st2"
             "opId ifOp2 < nextOp st2" "opId tterm2 < nextOp st2"
    and hi_ssa: "\<forall>v \<in> {cond2} \<union> set (opOperands tterm2). v \<notin> set (getResults ifOp2)"
             "eblocks2 \<noteq> [] \<longrightarrow> (\<forall>v \<in> set (opOperands eterm2). v \<notin> set (getResults ifOp2))"
    and hi_cfg: "\<forall>x \<in> set before2. opSuccessors x = []"
             "\<forall>b \<in> set (preB2 @ postB2). set (blockSuccessors st2 b) \<subseteq> set (preB2 @ [P2] @ postB2)"
             "\<forall>b \<in> set (T2 # trest2). set (blockSuccessors st2 b) \<subseteq> set (T2 # trest2)"
             "\<forall>b \<in> set eblocks2. set (blockSuccessors st2 b) \<subseteq> set eblocks2"
    and hi_names: "E2 = nextBlock st2" "D2 = nextBlock st2 + 1"
               "inner2 = (T2 # trest2) @ eblocks2 @ (if resTs2 = [] then [] else [D2])"
  shows "(\<exists>st'. ForLowering_matchAndRewrite forOp st = Inr (success, st')
       \<and> regions st' R = preB @ [P] @ (C # F # rest) @ [E] @ postB
       \<and> singleEntrySingleExit st' (preB @ postB) P (C # F # rest) E
       \<and> (preB = [] \<longrightarrow> hd (regions st' R) = P)
       \<and> (postB = [] \<longrightarrow> last (regions st' R) = E))
     \<and> (\<exists>st'. IfLowering_matchAndRewrite ifOp2 st2 = Inr (success, st')
       \<and> regions st' R2 = preB2 @ [P2] @ inner2 @ [E2] @ postB2
       \<and> singleEntrySingleExit st' (preB2 @ postB2) P2 inner2 E2
       \<and> (preB2 = [] \<longrightarrow> hd (regions st' R2) = P2)
       \<and> (postB2 = [] \<longrightarrow> last (regions st' R2) = E2))"
proof (rule conjI)
  show "\<exists>st'. ForLowering_matchAndRewrite forOp st = Inr (success, st')
       \<and> regions st' R = preB @ [P] @ (C # F # rest) @ [E] @ postB
       \<and> singleEntrySingleExit st' (preB @ postB) P (C # F # rest) E
       \<and> (preB = [] \<longrightarrow> hd (regions st' R) = P)
       \<and> (postB = [] \<longrightarrow> last (regions st' R) = E)"
    by (rule ForLowering_sese [OF hf_ip hf_P hf_R hf_forOp hf_Rb hf_C hf_L hf_dist hf_fresh hf_ids
          hf_nonnull hf_ssa hf_cfg hf_names])
  show "\<exists>st'. IfLowering_matchAndRewrite ifOp2 st2 = Inr (success, st')
       \<and> regions st' R2 = preB2 @ [P2] @ inner2 @ [E2] @ postB2
       \<and> singleEntrySingleExit st' (preB2 @ postB2) P2 inner2 E2
       \<and> (preB2 = [] \<longrightarrow> hd (regions st' R2) = P2)
       \<and> (postB2 = [] \<longrightarrow> last (regions st' R2) = E2)"
    by (rule IfLowering_sese [OF hi_ip hi_P hi_R hi_ifOp hi_Rt hi_Lt hi_Re hi_Le hi_dist hi_fresh
          hi_ids hi_ssa hi_cfg hi_names])
qed

text \<open>
  In \<open>exampleForIR\<close> and \<open>exampleIfIR\<close> the operation stands in the only block of its
  region, so the entry is the first and the exit the last block of the region.
\<close>

theorem lowering_single_entry_single_exit_witness:
  "(\<exists>st'. ForLowering_matchAndRewrite exampleFor exampleForIR = Inr (success, st')
      \<and> regions st' 0 = [0, 1, 3, 2]
      \<and> singleEntrySingleExit st' [] 0 [1, 3] 2
      \<and> hd (regions st' 0) = 0 \<and> last (regions st' 0) = 2)
   \<and> (\<exists>st'. IfLowering_matchAndRewrite exampleIf exampleIfIR = Inr (success, st')
      \<and> regions st' 0 = [0, 1, 2, 4, 3]
      \<and> singleEntrySingleExit st' [] 0 [1, 2, 4] 3
      \<and> hd (regions st' 0) = 0 \<and> last (regions st' 0) = 3)"
proof -
  have hf:
    "insertionBlock exampleForIR = 0" "insertionPoint exampleForIR = Before (opId exampleFor)"
    "blocks exampleForIR 0 =
       Some \<lparr>blockArguments = [], blockOperations = exampleDefs @ [exampleFor] @ [exampleUse],
             blockParent = 0\<rparr>"
    "regions exampleForIR 0 = [] @ [0] @ []"
    "opOperands exampleFor =
       OpResult 1 0 IndexType # OpResult 2 0 IndexType # OpResult 3 0 IndexType #
       [OpResult 4 0 (OtherType 7)]"
    "opRegions exampleFor = [1]" "getNumResults exampleFor = length [OtherType 7]"
    "regions exampleForIR 1 = 1 # []" "(0 :: nat) \<noteq> 1"
    "blocks exampleForIR 1 =
       Some \<lparr>blockArguments = IndexType # [OtherType 7],
             blockOperations = [exampleBodyOp, exampleYield], blockParent = 1\<rparr>"
    "blocks exampleForIR (last (1 # [])) =
       Some \<lparr>blockArguments = [IndexType, OtherType 7],
             blockOperations = [exampleBodyOp] @ [exampleYield], blockParent = 1\<rparr>"
    "distinct ([] @ [0] @ [] @ 1 # ([] :: nat list))"
    "\<forall>b \<in> set ([] @ [0] @ [] @ 1 # []). b < nextBlock exampleForIR"
    "opId exampleFor \<notin> opId ` set (exampleDefs @ [exampleUse] @ [exampleBodyOp, exampleYield] @
        [exampleBodyOp] @ [exampleYield])"
    "opId exampleYield \<notin> opId ` set (exampleDefs @ [exampleUse] @ [exampleBodyOp])"
    "([] :: nat list) \<noteq> [] \<longrightarrow> opId exampleYield \<notin> opId ` set [exampleBodyOp, exampleYield]"
    "opId exampleFor < nextOp exampleForIR" "opId exampleYield < nextOp exampleForIR"
    "OpResult 1 0 IndexType \<noteq> NullValue" "OpResult 2 0 IndexType \<noteq> NullValue"
    "\<forall>v \<in> set (opOperands exampleFor) \<union> set (opOperands exampleYield).
       v \<notin> set (getResults exampleFor)"
    "\<forall>x \<in> set exampleDefs. opSuccessors x = []"
    "\<forall>b \<in> set ([] @ []). set (blockSuccessors exampleForIR b) \<subseteq> set ([] @ [0] @ [])"
    "\<forall>b \<in> set (1 # []). set (blockSuccessors exampleForIR b) \<subseteq> set (1 # [])"
    "2 = nextBlock exampleForIR" "3 = nextBlock exampleForIR + 1"
    by (simp_all add: example_defs getNumResults_def getResults_def getResult_def upt_rec
        blockSuccessors_def opsSuccessors_def)
  have hi:
    "insertionBlock exampleIfIR = 0" "insertionPoint exampleIfIR = Before (opId exampleIf)"
    "blocks exampleIfIR 0 =
       Some \<lparr>blockArguments = [], blockOperations = exampleIfDefs @ [exampleIf] @ [exampleUse],
             blockParent = 0\<rparr>"
    "regions exampleIfIR 0 = [] @ [0] @ []"
    "opOperands exampleIf = [OpResult 1 0 (IntegerType 1)]"
    "opRegions exampleIf = [1, 2]" "opResultTypes exampleIf = [OtherType 7]"
    "regions exampleIfIR 1 = 1 # []" "(0 :: nat) \<noteq> 1" "(0 :: nat) \<noteq> 2" "(1 :: nat) \<noteq> 2"
    "blocks exampleIfIR (last (1 # [])) =
       Some \<lparr>blockArguments = [], blockOperations = [] @ [exampleThenYield], blockParent = 1\<rparr>"
    "regions exampleIfIR 2 = [2]" "[2 :: nat] = [] \<longrightarrow> [OtherType 7] = []"
    "[2 :: nat] \<noteq> [] \<longrightarrow> blocks exampleIfIR (last [2]) =
       Some \<lparr>blockArguments = [], blockOperations = [] @ [exampleElseYield], blockParent = 2\<rparr>"
    "distinct ([] @ [0] @ [] @ (1 # []) @ [2 :: nat])"
    "\<forall>b \<in> set ([] @ [0] @ [] @ (1 # []) @ [2]). b < nextBlock exampleIfIR"
    "opId exampleIf \<notin> opId ` set (exampleIfDefs @ [exampleUse] @ [] @ [exampleThenYield])"
    "opId exampleThenYield \<notin> opId ` set (exampleIfDefs @ [exampleUse] @ [])"
    "[2 :: nat] \<noteq> [] \<longrightarrow> opId exampleIf \<notin> opId ` set ([] @ [exampleElseYield])
       \<and> opId exampleThenYield \<notin> opId ` set ([] @ [exampleElseYield])
       \<and> opId exampleElseYield \<notin> opId ` set (exampleIfDefs @ [exampleUse] @ [] @ [])
       \<and> opId exampleElseYield < nextOp exampleIfIR"
    "opId exampleIf < nextOp exampleIfIR" "opId exampleThenYield < nextOp exampleIfIR"
    "\<forall>v \<in> {OpResult 1 0 (IntegerType 1)} \<union> set (opOperands exampleThenYield).
       v \<notin> set (getResults exampleIf)"
    "[2 :: nat] \<noteq> [] \<longrightarrow> (\<forall>v \<in> set (opOperands exampleElseYield). v \<notin> set (getResults exampleIf))"
    "\<forall>x \<in> set exampleIfDefs. opSuccessors x = []"
    "\<forall>b \<in> set ([] @ []). set (blockSuccessors exampleIfIR b) \<subseteq> set ([] @ [0] @ [])"
    "\<forall>b \<in> set (1 # []). set (blockSuccessors exampleIfIR b) \<subseteq> set (1 # [])"
    "\<forall>b \<in> set [2]. set (blockSuccessors exampleIfIR b) \<subseteq> set [2]"
    "3 = nextBlock exampleIfIR" "4 = nextBlock exampleIfIR + 1"
    "[1, 2, 4] = (1 # []) @ [2] @ (if [OtherType 7] = [] then [] else [4 :: nat])"
    by (simp_all add: example_defs getNumResults_def getResults_def getResult_def upt_rec
        blockSuccessors_def opsSuccessors_def)
  show ?thesis
    using lowering_single_entry_single_exit [OF hf hi] by simp
qed

text \<open>
  In \<open>exampleFor2IR\<close> the \<open>loop.for\<close> stands in block 0, the second block of its
  region, which block 5 branches to. After the rewrite the region holds the blocks 5, 0, 1,
  7 and 6; the entry of the loop is block 0, reached from block 5, and it is not the first
  block of the region.
\<close>

theorem lowering_entry_not_first_counterexample:
  "regionAfter (ForLowering_matchAndRewrite exampleFor exampleFor2IR) 0 = [5, 0, 1, 7, 6]
   \<and> successorsAfter (ForLowering_matchAndRewrite exampleFor exampleFor2IR) 5 = [0]
   \<and> successorsAfter (ForLowering_matchAndRewrite exampleFor exampleFor2IR) 0 = [1]
   \<and> successorsAfter (ForLowering_matchAndRewrite exampleFor exampleFor2IR) 1 = [7, 6]
   \<and> successorsAfter (ForLowering_matchAndRewrite exampleFor exampleFor2IR) 7 = [1]
   \<and> hd (regionAfter (ForLowering_matchAndRewrite exampleFor exampleFor2IR) 0) \<noteq> 0"
  by code_simp

end
